theory Spec2Isabelle
  imports Complex_Main "HOL-Library.Word"
begin

unbundle bit_operations_syntax

section \<open>JavaScript numbers\<close>

text \<open>
  The applets compute with JavaScript numbers. A finite number is modelled by an exact
  real, so rounding of IEEE doubles is not part of the model; the one non-finite value
  that the code produces on purpose and tests for, \<open>NaN\<close>, is a value of its own.
  The two divisions whose denominator is a mutable field (\<open>clamp_div01\<close> below) write
  out what JavaScript does when that denominator is zero. Counters held in typed arrays
  are natural numbers with the wrap-around of the array's element type written out.
\<close>

datatype jsnum = NaN | Num real

text \<open>\<open>clamp(x, a, b) = Math.max(a, Math.min(b, x))\<close>\<close>

definition clamp :: "real \<Rightarrow> real \<Rightarrow> real \<Rightarrow> real" where
  "clamp x a b = max a (min b x)"

text \<open>The same function on integers (bin indices after \<open>Math.floor\<close>).\<close>

definition clampi :: "int \<Rightarrow> int \<Rightarrow> int \<Rightarrow> int" where
  "clampi x a b = max a (min b x)"

text \<open>\<open>Math.max\<close> and \<open>Math.min\<close> return \<open>NaN\<close> as soon as one argument is \<open>NaN\<close>.\<close>

fun clampN :: "jsnum \<Rightarrow> real \<Rightarrow> real \<Rightarrow> jsnum" where
  "clampN NaN a b = NaN"
| "clampN (Num x) a b = Num (clamp x a b)"

text \<open>
  \<open>clamp(a / b, 0, 1)\<close> for finite \<open>a\<close> and \<open>b\<close>: when \<open>b\<close> is zero the quotient is
  \<open>+Infinity\<close>, \<open>-Infinity\<close> or \<open>NaN\<close> according to the sign of \<open>a\<close>, and the clamp
  turns these into 1, 0 and \<open>NaN\<close>.
\<close>

definition clamp_div01 :: "real \<Rightarrow> real \<Rightarrow> jsnum" where
  "clamp_div01 a b =
     (if b = 0 then (if 0 < a then Num 1 else if a < 0 then Num 0 else NaN)
      else Num (clamp (a / b) 0 1))"

fun jsnum_map2 :: "(real \<Rightarrow> real \<Rightarrow> real) \<Rightarrow> jsnum \<Rightarrow> jsnum \<Rightarrow> jsnum" where
  "jsnum_map2 f (Num x) (Num y) = Num (f x y)"
| "jsnum_map2 f _ _ = NaN"

text \<open>
  A typed array ignores a store at an index outside its range, and a store wraps to the
  element width (\<open>m = 2 ^ 16\<close> for \<open>Uint16Array\<close>, \<open>2 ^ 32\<close> for \<open>Uint32Array\<close>).
  \<open>ta_inc\<close> is \<open>a[i] = (a[i] || 0) + 1\<close> and \<open>a[i]++\<close>.
\<close>

definition ta_inc :: "nat \<Rightarrow> nat list \<Rightarrow> nat \<Rightarrow> nat list" where
  "ta_inc m a i = (if i < length a then a[i := (a ! i + 1) mod m] else a)"

definition U16 :: nat where "U16 = 65536"
definition U32 :: nat where "U32 = 4294967296"

section \<open>Deterministic RNG\<close>

text \<open>
  \<open>rngMulberry32(seed)\<close> and \<open>MathUtils.createRNG(seed)\<close> are the same function: a closure
  over the variable \<open>t\<close>, initialised to \<open>seed >>> 0\<close>. The stream is modelled by the
  value of \<open>t\<close>. \<open>t += 0x6D2B79F5\<close> is an addition of JavaScript numbers and does not
  wrap; the bit operations read \<open>t\<close> modulo \<open>2 ^ 32\<close>. (The addition is exact while
  \<open>t < 2 ^ 53\<close>, that is for the first 4.9 million draws of a stream.)
\<close>

type_synonym rng = int

definition createRNG :: "int \<Rightarrow> rng" where
  "createRNG seed = uint (word_of_int seed :: 32 word)"

text \<open>\<open>Math.imul\<close>: 32-bit multiplication.\<close>

definition imul :: "32 word \<Rightarrow> 32 word \<Rightarrow> 32 word" where
  "imul a b = a * b"

text \<open>The mixing of one call, from the new value of \<open>t\<close> to the 32-bit result.\<close>

definition mix32 :: "32 word \<Rightarrow> 32 word" where
  "mix32 tw =
     (let r = imul (tw XOR drop_bit 15 tw) (1 OR tw);
          r = r XOR (r + imul (r XOR drop_bit 7 r) (61 OR r))
      in r XOR drop_bit 14 r)"

text \<open>One call of the closure: the number returned and the new value of \<open>t\<close>.\<close>

definition rng_call :: "rng \<Rightarrow> real \<times> rng" where
  "rng_call t0 =
     (let t = t0 + 0x6D2B79F5
      in (real (unat (mix32 (word_of_int t))) / 4294967296, t))"

text \<open>The first \<open>k\<close> numbers of a stream, in order.\<close>

fun rng_take :: "nat \<Rightarrow> rng \<Rightarrow> real list" where
  "rng_take 0 t = []"
| "rng_take (Suc k) t = (let (r, t') = rng_call t in r # rng_take k t')"

section \<open>Statistics of a sample\<close>

text \<open>\<open>mean\<close>, \<open>varianceUnbiased\<close>, \<open>robustSD\<close> and \<open>med\<close> of the standalone component.\<close>

definition mean :: "real list \<Rightarrow> jsnum" where
  "mean a = (if length a \<noteq> 0 then Num (foldl (\<lambda>s v. s + v) 0 a / real (length a)) else NaN)"

definition varianceUnbiased :: "real list \<Rightarrow> jsnum" where
  "varianceUnbiased a =
     (let n = length a in
      if n < 2 then NaN
      else (case mean a of
              NaN \<Rightarrow> NaN
            | Num m \<Rightarrow> Num (foldl (\<lambda>s2 x. s2 + (x - m) ^ 2) 0 a / real (n - 1))))"

text \<open>\<open>isFinite(v) && v >= 0 ? Math.sqrt(v) : 0\<close>\<close>

definition robustSD :: "real list \<Rightarrow> jsnum" where
  "robustSD a =
     (case varianceUnbiased a of
        NaN \<Rightarrow> Num 0
      | Num v \<Rightarrow> if v \<ge> 0 then Num (sqrt v) else Num 0)"

definition med :: "real list \<Rightarrow> jsnum" where
  "med a =
     (if length a = 0 then NaN
      else (let b = sort a; m = length b div 2
            in if length b mod 2 \<noteq> 0 then Num (b ! m)
               else Num (0.5 * (b ! (m - 1) + b ! m))))"

text \<open>\<open>MathUtils.variance\<close> and \<open>MathUtils.standardDeviation\<close> of the shared module.\<close>

definition variance :: "real list \<Rightarrow> bool \<Rightarrow> jsnum" where
  "variance array unbiased =
     (let n = length array in
      if n < (if unbiased then 2 else 1) then NaN
      else (case mean array of
              NaN \<Rightarrow> NaN
            | Num m \<Rightarrow>
                Num (foldl (\<lambda>s2 x. s2 + (x - m) ^ 2) 0 array
                       / real (n - (if unbiased then 1 else 0)))))"

definition standardDeviation :: "real list \<Rightarrow> bool \<Rightarrow> jsnum" where
  "standardDeviation array unbiased =
     (case variance array unbiased of
        NaN \<Rightarrow> Num 0
      | Num v \<Rightarrow> if v \<ge> 0 then Num (sqrt v) else Num 0)"

text \<open>\<open>validateSampleSize\<close>, the check of the callers: the \<open>valid\<close> flag.\<close>

definition validateSampleSize :: "int \<Rightarrow> bool" where
  "validateSampleSize n = (if n < 2 then False else if n > 1000 then False else True)"

text \<open>
  The statistic of a sample, by the name of the statistic and the threshold
  (\<open>Engine.computeStat\<close>, and \<open>StatEngine.computeStatistic\<close> with the utilities of the
  shared module).
\<close>

definition computeStat :: "string \<Rightarrow> real \<Rightarrow> real list \<Rightarrow> jsnum" where
  "computeStat stat thr xs =
     (if length xs = 0 then NaN
      else if stat = ''mean'' then mean xs
      else if stat = ''median'' then med xs
      else if stat = ''sd'' then robustSD xs
      else if stat = ''proportion'' then
        Num (real (length (filter (\<lambda>v. v > thr) xs)) / real (length xs))
      else NaN)"

definition computeStatistic :: "string \<Rightarrow> real \<Rightarrow> real list \<Rightarrow> jsnum" where
  "computeStatistic stat thr values =
     (if length values = 0 then NaN
      else if stat = ''mean'' then mean values
      else if stat = ''median'' then med values
      else if stat = ''sd'' then standardDeviation values True
      else if stat = ''proportion'' then
        Num (real (length (filter (\<lambda>v. v > thr) values)) / real (length values))
      else NaN)"

text \<open>\<open>statDomain\<close> / \<open>getStatisticDomain\<close>: the pair \<open>(min, max)\<close>.\<close>

definition statDomain :: "string \<Rightarrow> real \<times> real" where
  "statDomain stat = (if stat = ''sd'' then (0, 0.5) else (0, 1))"

text \<open>The sample variance in the words of the specification: denominator \<open>n - 1\<close>.\<close>

definition sample_variance :: "real list \<Rightarrow> real" where
  "sample_variance xs =
     (\<Sum>x\<leftarrow>xs. (x - sum_list xs / real (length xs)) ^ 2) / (real (length xs) - 1)"

section \<open>Population summaries and the sampler\<close>

text \<open>
  The code of this section is the same in the three engines, up to the name of the column
  count (\<open>COLS\<close> or \<open>this.config.cols\<close>), which is the parameter \<open>cols\<close> here. The
  histograms are typed arrays created with \<open>cols\<close> elements, so every read
  \<open>weights[c]\<close> with \<open>c < cols\<close> is in range.
\<close>

text \<open>\<open>(c + 0.5) / COLS\<close>, the centre of column \<open>c\<close>.\<close>

definition bin_center :: "nat \<Rightarrow> nat \<Rightarrow> real" where
  "bin_center cols c = (real c + 0.5) / real cols"

text \<open>\<open>for (let i = 0; i < COLS; i++) total += weights[i]\<close>\<close>

definition total_weight :: "nat \<Rightarrow> nat list \<Rightarrow> nat" where
  "total_weight cols weights = fold (\<lambda>i total. total + weights ! i) [0..<cols] 0"

text \<open>
  The loop \<open>for (c ...) { acc += weights[c]; if (target <= acc) { chosen = c; break; } }\<close>
  from column \<open>c\<close> with the running sum \<open>acc\<close>: the column at which it breaks, or
  \<open>None\<close> when it runs to the end. The median loop of the population summary is the
  same loop with the test written \<open>acc >= half\<close>.
\<close>

function walk_bins :: "nat \<Rightarrow> nat list \<Rightarrow> real \<Rightarrow> nat \<Rightarrow> nat \<Rightarrow> nat option" where
  "walk_bins cols weights target c acc =
     (if c < cols then
        (let acc' = acc + weights ! c
         in if target \<le> real acc' then Some c
            else walk_bins cols weights target (Suc c) acc')
      else None)"
  by pat_completeness auto
termination
  by (relation "measure (\<lambda>(cols, weights, target, c, acc). cols - c)") auto

record pop_stats =
  ps_mu :: real
  ps_sd :: real
  ps_med :: real
  ps_pthr :: real
  ps_total :: nat

text \<open>\<open>get popStats\<close> / \<open>getPopulationStats\<close>\<close>

definition popStats :: "nat \<Rightarrow> nat list \<Rightarrow> real \<Rightarrow> pop_stats" where
  "popStats cols pc thr =
     (let (total, mu0) =
            fold (\<lambda>c (total, mu). (total + pc ! c, mu + real (pc ! c) * bin_center cols c))
              [0..<cols] (0, 0);
          mu = (if total \<noteq> 0 then mu0 / real total else 0.5);
          s2 = fold (\<lambda>c s2. s2 + real (pc ! c) * (bin_center cols c - mu) * (bin_center cols c - mu))
                 [0..<cols] 0;
          sdPop = (if total \<noteq> 0 then sqrt (s2 / real total) else 0);
          medv = (if total \<noteq> 0 then
                    (case walk_bins cols pc (real total / 2) 0 0 of
                       Some c \<Rightarrow> bin_center cols c
                     | None \<Rightarrow> 0.5)
                  else 0.5);
          greater = fold (\<lambda>c g. if bin_center cols c > thr then g + pc ! c else g) [0..<cols] 0;
          pthr = (if total \<noteq> 0 then real greater / real total else 0)
      in \<lparr>ps_mu = mu, ps_sd = sdPop, ps_med = medv, ps_pthr = pthr, ps_total = total\<rparr>)"

text \<open>The two ways of choosing a column from one number \<open>r\<close> of the stream.\<close>

definition choose_uniform :: "nat \<Rightarrow> real \<Rightarrow> nat" where
  "choose_uniform cols r = nat \<lfloor>r * real cols\<rfloor>"

definition choose_weighted :: "nat \<Rightarrow> nat list \<Rightarrow> nat \<Rightarrow> real \<Rightarrow> nat" where
  "choose_weighted cols weights tot r =
     (case walk_bins cols weights (r * real tot) 0 0 of
        Some c \<Rightarrow> c
      | None \<Rightarrow> cols div 2)"

text \<open>
  \<open>for (let i = 0; i < n; i++) { ... rng() ... }\<close>: the values, the columns and the
  stream after the loop.
\<close>

fun sample_loop :: "(real \<Rightarrow> nat) \<Rightarrow> nat \<Rightarrow> nat \<Rightarrow> rng \<Rightarrow> (real list \<times> nat list) \<times> rng" where
  "sample_loop pick cols 0 t = (([], []), t)"
| "sample_loop pick cols (Suc n) t =
     (let (r, t1) = rng_call t;
          col = pick r;
          ((xs, cs), t2) = sample_loop pick cols n t1
      in ((bin_center cols col # xs, col # cs), t2))"

text \<open>\<open>sampleN(n)\<close> / \<open>drawSample(sampleSize)\<close>\<close>

definition sampleN :: "nat \<Rightarrow> nat list \<Rightarrow> nat \<Rightarrow> rng \<Rightarrow> (real list \<times> nat list) \<times> rng" where
  "sampleN cols weights n t =
     (let tot = total_weight cols weights
      in if tot = 0 then sample_loop (choose_uniform cols) cols n t
         else sample_loop (choose_weighted cols weights tot) cols n t)"

section \<open>Bins of the sampling distribution\<close>

text \<open>
  \<open>addToSamplingDistribution\<close> of the shared module: the bin that is incremented, or
  \<open>None\<close> when the index is \<open>NaN\<close>.
\<close>

definition bin_of_stat :: "jsnum \<Rightarrow> real \<Rightarrow> real \<Rightarrow> nat \<Rightarrow> nat option" where
  "bin_of_stat val mn mx bins =
     (case clampN (jsnum_map2 (\<lambda>v d. (v - mn) / d) val (Num (mx - mn))) 0 1 of
        NaN \<Rightarrow> None
      | Num proportion \<Rightarrow> Some (nat (clampi \<lfloor>proportion * real bins\<rfloor> 0 (int bins - 1))))"

text \<open>
  The two lines shared by \<open>calculateWithGather\<close> and \<open>handleRepeatTurbo\<close>:
  \<open>x01 = clamp((val - min) / (max - min + 1e-9), 0, 1)\<close> and
  \<open>bin = clamp(Math.floor(x01 * STAT_BINS), 0, STAT_BINS - 1)\<close>.
\<close>

definition bin_of_stat_eps :: "jsnum \<Rightarrow> real \<Rightarrow> real \<Rightarrow> nat \<Rightarrow> nat option" where
  "bin_of_stat_eps val mn mx bins =
     (case clampN (jsnum_map2 (\<lambda>v d. (v - mn) / d) val (Num (mx - mn + 1 / 1000000000))) 0 1 of
        NaN \<Rightarrow> None
      | Num x01 \<Rightarrow> Some (nat (clampi \<lfloor>x01 * real bins\<rfloor> 0 (int bins - 1))))"

text \<open>The bin in the words of the specification.\<close>

definition spec_bin :: "real \<Rightarrow> real \<Rightarrow> real \<Rightarrow> nat \<Rightarrow> int" where
  "spec_bin v mn mx B = clampi \<lfloor>(v - mn) / (mx - mn) * real B\<rfloor> 0 (int B - 1)"

text \<open>\<open>a[i] || 0\<close> on a typed array, and a counted store at an index that may be \<open>NaN\<close>.\<close>

definition ta_get :: "nat list \<Rightarrow> nat option \<Rightarrow> nat" where
  "ta_get a i = (case i of None \<Rightarrow> 0 | Some j \<Rightarrow> if j < length a then a ! j else 0)"

definition ta_inc_at :: "nat \<Rightarrow> nat list \<Rightarrow> nat option \<Rightarrow> nat list" where
  "ta_inc_at m a i = (case i of None \<Rightarrow> a | Some j \<Rightarrow> ta_inc m a j)"

section \<open>The engine of the standalone component\<close>

definition COLS :: nat where "COLS = 60"
definition STAT_BINS :: nat where "STAT_BINS = COLS"
definition PAD :: real where "PAD = 16"

text \<open>
  The objects of the animation. Horizontal positions that are computed from a bin index
  are \<open>NaN\<close> when the bin is; the bin of a statistic is \<open>None\<close> when it is \<open>NaN\<close>.
\<close>

record sample_particle =
  sp_col :: nat
  sp_x :: real
  sp_y :: real
  sp_vy :: real
  sp_targetY :: real

record stat_particle =
  st_x :: jsnum
  st_y :: real
  st_vy :: real
  st_targetY :: real
  st_bin :: "nat option"

record pop_flash =
  fl_col :: nat
  fl_y :: real
  fl_until :: real

record gather_particle =
  gp_sx :: real
  gp_sy :: real
  gp_x :: jsnum
  gp_y :: jsnum

record gather_target =
  gt_x :: jsnum
  gt_y :: real
  gt_bin :: "nat option"

record emission_plan =
  ep_start :: real
  ep_end :: real
  ep_total :: nat
  ep_emitted :: nat
  ep_cols :: "nat list"
  ep_xs :: "real list"

text \<open>
  The fields of \<open>Engine\<close>, without the canvas context and the two display switches
  \<open>showParamLine\<close> and \<open>showNormalFit\<close>, which only the drawing code reads. \<open>rng\<close> is
  the stream held by the closure in \<open>this.rng\<close>. The heights \<open>BOX_TOP_Y\<close>,
  \<open>BOX_MID_Y\<close> and \<open>BOX_BOT_Y\<close> are rescaled by the drawing code.
\<close>

record engine =
  plotW :: real
  gridW :: real
  colW :: real
  BOX :: real
  gridX0 :: real
  H_TOP :: real
  H_MID :: real
  H_BOT :: real
  marginY :: real
  BOX_TOP_Y :: real
  BOX_MID_Y :: real
  BOX_BOT_Y :: real
  popCounts :: "nat list"
  midCounts :: "nat list"
  botCounts :: "nat list"
  sampleParticles :: "sample_particle list"
  statParticles :: "stat_particle list"
  popFlashes :: "pop_flash list"
  gatherParticles :: "gather_particle list"
  gatherTarget :: "gather_target option"
  gathering :: bool
  gatherStart :: real
  gatherDur :: real
  emissionPlan :: "emission_plan option"
  lastSample :: "real list"
  statistic :: string
  threshold :: real
  speed :: string
  rng :: rng
  needsRedraw :: bool
  lastGatheringSample :: "real list option"

definition resetGeometry :: "real \<Rightarrow> real \<Rightarrow> real \<Rightarrow> real \<Rightarrow> engine \<Rightarrow> engine" where
  "resetGeometry plotW' topH midH botH e =
     (let innerW = plotW' - 2 * PAD;
          colW' = real_of_int \<lfloor>innerW / real COLS\<rfloor>;
          BOX' = max 6 colW';
          gridW' = BOX' * real COLS
      in e\<lparr>plotW := plotW', colW := colW', BOX := BOX', gridW := gridW',
            gridX0 := real_of_int \<lfloor>(plotW' - gridW') / 2\<rfloor>,
            H_TOP := topH, H_MID := midH, H_BOT := botH, needsRedraw := True\<rparr>)"

text \<open>The constructor.\<close>

definition new_Engine :: engine where
  "new_Engine =
     resetGeometry 960 300 240 360
       \<lparr>plotW = 960, gridW = 0, colW = 0, BOX = 8, gridX0 = 0,
        H_TOP = 300, H_MID = 240, H_BOT = 360, marginY = 8,
        BOX_TOP_Y = 8, BOX_MID_Y = 8, BOX_BOT_Y = 8,
        popCounts = replicate COLS 0, midCounts = replicate COLS 0,
        botCounts = replicate STAT_BINS 0,
        sampleParticles = [], statParticles = [], popFlashes = [],
        gatherParticles = [], gatherTarget = None, gathering = False,
        gatherStart = 0, gatherDur = 260, emissionPlan = None,
        lastSample = [], statistic = ''mean'', threshold = 0.5, speed = ''normal'',
        rng = createRNG 1234, needsRedraw = True, lastGatheringSample = None\<rparr>"

definition colCenter :: "engine \<Rightarrow> nat \<Rightarrow> real" where
  "colCenter e col = gridX0 e + real col * BOX e + BOX e / 2"

text \<open>\<open>this.gridX0 + bin * this.BOX + this.BOX / 2\<close> for a bin that may be \<open>NaN\<close>.\<close>

definition binCenterX :: "engine \<Rightarrow> nat option \<Rightarrow> jsnum" where
  "binCenterX e bin =
     (case bin of None \<Rightarrow> NaN | Some b \<Rightarrow> Num (gridX0 e + real b * BOX e + BOX e / 2))"

definition hasActiveAnimations :: "engine \<Rightarrow> bool" where
  "hasActiveAnimations e =
     (emissionPlan e \<noteq> None \<or> length (sampleParticles e) \<noteq> 0 \<or> length (statParticles e) \<noteq> 0
      \<or> gathering e \<or> length (popFlashes e) \<noteq> 0 \<or> length (gatherParticles e) \<noteq> 0)"

definition isIdle :: "engine \<Rightarrow> bool" where
  "isIdle e = (\<not> hasActiveAnimations e)"

text \<open>\<open>scheduleEmission\<close>; \<open>now\<close> is what \<open>performance.now()\<close> returns in the call.\<close>

definition scheduleEmission :: "real \<Rightarrow> real list \<Rightarrow> nat list \<Rightarrow> real \<Rightarrow> engine \<Rightarrow> engine" where
  "scheduleEmission now xs cols dropMs e =
     e\<lparr>lastSample := xs,
       emissionPlan := Some \<lparr>ep_start = now, ep_end = now + dropMs, ep_total = length cols,
                              ep_emitted = 0, ep_cols = cols, ep_xs = xs\<rparr>\<rparr>"

definition startSample :: "real \<Rightarrow> nat \<Rightarrow> real \<Rightarrow> engine \<Rightarrow> engine" where
  "startSample now n dropMs e =
     (let ((xs, cols), t) = sampleN COLS (popCounts e) n (rng e)
      in scheduleEmission now xs cols dropMs (e\<lparr>rng := t\<rparr>))"

subsection \<open>One tick\<close>

text \<open>
  The body of the emission loop for a particle of column \<open>col\<close>: the height \<open>yStart\<close>
  at which it leaves the population tray, and the particle that is pushed, whose target
  height is that of the stack level \<open>level\<close> of the sample tray.
\<close>

definition yStart :: "engine \<Rightarrow> nat \<Rightarrow> real" where
  "yStart e col =
     (let topBase = marginY e + H_TOP e - 16
      in if popCounts e ! col > 0
         then topBase - (real (popCounts e ! col) - 1) * BOX_TOP_Y e - BOX_TOP_Y e / 2
         else BOX_TOP_Y e * 2)"

definition emitted_particle :: "engine \<Rightarrow> nat \<Rightarrow> nat \<Rightarrow> sample_particle" where
  "emitted_particle e col level =
     (let midBase = marginY e + H_TOP e + H_MID e - 8;
          targetY = midBase - real level * BOX_MID_Y e - BOX_MID_Y e / 2
      in \<lparr>sp_col = col, sp_x = colCenter e col, sp_y = yStart e col, sp_vy = 0,
          sp_targetY = targetY\<rparr>)"

text \<open>
  The \<open>while (toEmit-- > 0 && p.emitted < p.total)\<close> loop of the emission step, on the
  in-flight counters, the flashes, the sample particles and \<open>p.emitted\<close>. The columns of
  a plan come from the sampler, so they are below \<open>COLS\<close> and the reads at \<open>col\<close> are
  in range.
\<close>

fun emit_loop ::
  "engine \<Rightarrow> real \<Rightarrow> emission_plan \<Rightarrow> nat
     \<Rightarrow> nat list \<times> pop_flash list \<times> sample_particle list \<times> nat
     \<Rightarrow> nat list \<times> pop_flash list \<times> sample_particle list \<times> nat" where
  "emit_loop e now p 0 acc = acc"
| "emit_loop e now p (Suc toEmit) (inflight, flashes, particles, emitted) =
     (if emitted < ep_total p then
        (let col = ep_cols p ! emitted;
             level = ta_get (midCounts e) (Some col) + inflight ! col
         in emit_loop e now p toEmit
              (ta_inc U16 inflight col,
               flashes @ [\<lparr>fl_col = col, fl_y = yStart e col, fl_until = now + 160\<rparr>],
               particles @ [emitted_particle e col level],
               emitted + 1))
      else (inflight, flashes, particles, emitted))"

text \<open>
  The emission step of \<open>tick\<close>. When the fraction \<open>f\<close> is \<open>NaN\<close>, so are
  \<open>targetEmitted\<close> and \<open>toEmit\<close>, and both tests on \<open>toEmit\<close> fail: nothing is emitted.
\<close>

definition tick_emission :: "real \<Rightarrow> engine \<Rightarrow> engine" where
  "tick_emission now e =
     (case emissionPlan e of
        None \<Rightarrow> e
      | Some p \<Rightarrow>
          (let f = clamp_div01 (now - ep_start p) (ep_end p - ep_start p);
               toEmit =
                 (case f of
                    NaN \<Rightarrow> 0
                  | Num fv \<Rightarrow>
                      (let targetEmitted = \<lfloor>fv * real (ep_total p)\<rfloor>;
                           toEmit = targetEmitted - int (ep_emitted p)
                       in if toEmit \<le> 0 \<and> fv \<ge> 1 then int (ep_total p) - int (ep_emitted p)
                          else toEmit));
               (inflight, flashes, particles, emitted) =
                 (if toEmit > 0 then
                    emit_loop e now p (nat toEmit)
                      (fold (\<lambda>s inflight. ta_inc U16 inflight (sp_col s)) (sampleParticles e)
                         (replicate COLS 0),
                       popFlashes e, sampleParticles e, ep_emitted p)
                  else ([], popFlashes e, sampleParticles e, ep_emitted p))
           in e\<lparr>popFlashes := flashes, sampleParticles := particles,
                 emissionPlan := (if emitted \<ge> ep_total p then None
                                  else Some (p\<lparr>ep_emitted := emitted\<rparr>))\<rparr>))"

text \<open>
  The motion of a sample particle in one tick:
  \<open>s.vy += g * dt; s.y = Math.min(s.y + s.vy * dt, s.targetY)\<close>.
\<close>

definition sp_move :: "real \<Rightarrow> real \<Rightarrow> sample_particle \<Rightarrow> sample_particle" where
  "sp_move g dt s =
     (let vy = sp_vy s + g * dt
      in s\<lparr>sp_vy := vy, sp_y := min (sp_y s + vy * dt) (sp_targetY s)\<rparr>)"

text \<open>
  The loop over the sample particles: the survivors and the tray histogram. A particle
  that does not survive adds one to the tray column it belongs to.
\<close>

fun sample_physics ::
  "real \<Rightarrow> real \<Rightarrow> sample_particle list \<Rightarrow> nat list \<Rightarrow> sample_particle list \<times> nat list" where
  "sample_physics g dt [] mid = ([], mid)"
| "sample_physics g dt (s # rest) mid =
     (let s' = sp_move g dt s
      in if sp_y s' < sp_targetY s' - 0.1 then
           (let (survivors, mid') = sample_physics g dt rest mid in (s' # survivors, mid'))
         else sample_physics g dt rest (ta_inc_at U16 mid (Some (sp_col s'))))"

definition tick_sample :: "real \<Rightarrow> real \<Rightarrow> engine \<Rightarrow> engine" where
  "tick_sample g dt e =
     (if length (sampleParticles e) \<noteq> 0 then
        (let (survivors, mid) = sample_physics g dt (sampleParticles e) (midCounts e)
         in e\<lparr>sampleParticles := survivors, midCounts := mid\<rparr>)
      else e)"

text \<open>\<open>q.bin === this.gatherTarget.bin\<close>: \<open>NaN\<close> is not equal to itself.\<close>

definition same_bin :: "nat option \<Rightarrow> nat option \<Rightarrow> bool" where
  "same_bin a b = (a \<noteq> None \<and> a = b)"

text \<open>\<open>gp.x = gp.sx + (target - gp.sx) * t\<close>\<close>

definition lerp :: "real \<Rightarrow> jsnum \<Rightarrow> jsnum \<Rightarrow> jsnum" where
  "lerp s target t = jsnum_map2 (\<lambda>d tv. s + d * tv) (jsnum_map2 (\<lambda>a b. a - b) target (Num s)) t"

definition tick_gather :: "real \<Rightarrow> engine \<Rightarrow> engine" where
  "tick_gather now e =
     (case gatherTarget e of
        None \<Rightarrow> e
      | Some gt \<Rightarrow>
          if \<not> gathering e then e
          else
            (let t = clamp_div01 (now - gatherStart e) (gatherDur e);
                 e1 = e\<lparr>gatherParticles :=
                          map (\<lambda>gp. gp\<lparr>gp_x := lerp (gp_sx gp) (gt_x gt) t,
                                        gp_y := lerp (gp_sy gp) (Num (gt_y gt)) t\<rparr>)
                            (gatherParticles e)\<rparr>
             in case t of
                  NaN \<Rightarrow> e1
                | Num tv \<Rightarrow>
                    if tv \<ge> 1 then
                      (let botBase = marginY e1 + H_TOP e1 + H_MID e1 + H_BOT e1 - 8;
                           inflightForBin =
                             length (filter (\<lambda>q. same_bin (st_bin q) (gt_bin gt)) (statParticles e1));
                           level = ta_get (botCounts e1) (gt_bin gt) + inflightForBin;
                           targetY = botBase - real level * BOX_BOT_Y e1 - BOX_BOT_Y e1 / 2;
                           xCenter = binCenterX e1 (gt_bin gt)
                       in e1\<lparr>statParticles := statParticles e1 @
                                [\<lparr>st_x = xCenter, st_y = gt_y gt, st_vy = 0, st_targetY = targetY,
                                  st_bin = gt_bin gt\<rparr>],
                              gathering := False, gatherTarget := None, gatherParticles := [],
                              lastGatheringSample := None\<rparr>)
                    else e1))"

text \<open>The same motion for a statistic particle, and the loop over the statistic particles.\<close>

definition st_move :: "real \<Rightarrow> real \<Rightarrow> stat_particle \<Rightarrow> stat_particle" where
  "st_move g dt p =
     (let vy = st_vy p + g * dt
      in p\<lparr>st_vy := vy, st_y := min (st_y p + vy * dt) (st_targetY p)\<rparr>)"

fun stat_physics ::
  "real \<Rightarrow> real \<Rightarrow> stat_particle list \<Rightarrow> nat list \<Rightarrow> stat_particle list \<times> nat list" where
  "stat_physics g dt [] bc = ([], bc)"
| "stat_physics g dt (p # rest) bc =
     (let p' = st_move g dt p
      in if st_y p' < st_targetY p' - 0.1 then
           (let (survivors, bc') = stat_physics g dt rest bc in (p' # survivors, bc'))
         else stat_physics g dt rest (ta_inc_at U32 bc (st_bin p')))"

definition tick_stat :: "real \<Rightarrow> real \<Rightarrow> engine \<Rightarrow> engine" where
  "tick_stat g dt e =
     (if length (statParticles e) \<noteq> 0 then
        (let (survivors, bc) = stat_physics g dt (statParticles e) (botCounts e)
         in e\<lparr>statParticles := survivors, botCounts := bc\<rparr>)
      else e)"

text \<open>\<open>const g = this.speed === "fast" ? 2400 : 1400\<close>\<close>

definition gravity :: "engine \<Rightarrow> real" where
  "gravity e = (if speed e = ''fast'' then 2400 else 1400)"

text \<open>\<open>tick(dt, now)\<close>: the five steps in the order of the source.\<close>

definition tick :: "real \<Rightarrow> real \<Rightarrow> engine \<Rightarrow> engine" where
  "tick dt now e =
     (let hadAnimations = hasActiveAnimations e;
          g = gravity e;
          e1 = tick_emission now e;
          e2 = tick_sample g dt e1;
          e3 = tick_gather now e2;
          e4 = tick_stat g dt e3;
          e5 = e4\<lparr>popFlashes := filter (\<lambda>f. fl_until f > now) (popFlashes e4)\<rparr>
      in if hasActiveAnimations e5 \<or> hadAnimations then e5\<lparr>needsRedraw := True\<rparr> else e5)"



subsection \<open>Gathering, drawing, clearing\<close>

definition hasSampleInMid :: "engine \<Rightarrow> bool" where
  "hasSampleInMid e = list_ex (\<lambda>i. midCounts e ! i > 0) [0..<COLS]"

text \<open>
  The sample rebuilt from the tray when \<open>lastSample\<close> is empty: for each column, one
  centre value for each count.
\<close>

definition tray_values :: "nat list \<Rightarrow> real list" where
  "tray_values mid = concat (map (\<lambda>c. replicate (ta_get mid (Some c)) (bin_center COLS c)) [0..<COLS])"

text \<open>The snapshot of the tray: one gather particle for each count, at its place in the stack.\<close>

definition snapshot_tray :: "engine \<Rightarrow> gather_particle list" where
  "snapshot_tray e =
     (let midBase = marginY e + H_TOP e + H_MID e - 16
      in concat (map (\<lambda>c. map (\<lambda>r. (let startY = midBase - real r * BOX_MID_Y e - BOX_MID_Y e / 2;
                                           startX = colCenter e c
                                       in \<lparr>gp_sx = startX, gp_sy = startY,
                                           gp_x = Num startX, gp_y = Num startY\<rparr>))
                              [0..<ta_get (midCounts e) (Some c)])
                   [0..<COLS]))"

text \<open>\<open>calculateWithGather\<close>; \<open>now\<close> is what \<open>performance.now()\<close> returns in the call.\<close>

definition calculateWithGather :: "real \<Rightarrow> engine \<Rightarrow> engine" where
  "calculateWithGather now e =
     (let xs = lastSample e;
          hasMid = list_ex (\<lambda>i. midCounts e ! i > 0) [0..<COLS]
      in if length xs = 0 \<and> \<not> hasMid then e
         else
           (let sample = (if length xs \<noteq> 0 then xs else tray_values (midCounts e));
                val = computeStat (statistic e) (threshold e) sample;
                (mn, mx) = statDomain (statistic e);
                bin = bin_of_stat_eps val mn mx STAT_BINS;
                gatherX = binCenterX e bin;
                gatherY = marginY e + H_TOP e + H_MID e / 2
            in e\<lparr>lastGatheringSample := Some sample,
                  gatherParticles := snapshot_tray e,
                  midCounts := replicate COLS 0,
                  gatherTarget := Some \<lparr>gt_x = gatherX, gt_y = gatherY, gt_bin = bin\<rparr>,
                  gathering := True,
                  gatherStart := now,
                  lastSample := []\<rparr>))"

text \<open>
  \<open>setTimeout(() => { this.startSample(n, dropMs); }, 100)\<close> leaves a pending call behind.
  The engine together with the pending calls is a \<open>world\<close>.
\<close>

record timer =
  tm_due :: real
  tm_n :: nat
  tm_dropMs :: real

record world =
  w_engine :: engine
  w_timers :: "timer list"

definition drawSampleWithAutoCalculate :: "real \<Rightarrow> nat \<Rightarrow> real \<Rightarrow> world \<Rightarrow> world" where
  "drawSampleWithAutoCalculate now n dropMs w =
     (let e = w_engine w
      in if length (lastSample e) \<noteq> 0 \<or> hasSampleInMid e then
           w\<lparr>w_engine := calculateWithGather now e,
             w_timers := w_timers w @ [\<lparr>tm_due = now + 100, tm_n = n, tm_dropMs = dropMs\<rparr>]\<rparr>
         else w\<lparr>w_engine := startSample now n dropMs e\<rparr>)"

text \<open>
  The host runs a pending call once its delay has passed: at time \<open>now\<close>, the first pending
  call that is due runs and leaves the list.
\<close>

fun fire_timer :: "real \<Rightarrow> timer list \<Rightarrow> engine \<Rightarrow> timer list \<times> engine" where
  "fire_timer now [] e = ([], e)"
| "fire_timer now (tm # rest) e =
     (if tm_due tm \<le> now then (rest, startSample now (tm_n tm) (tm_dropMs tm) e)
      else (let (rest', e') = fire_timer now rest e in (tm # rest', e')))"

definition clearTray :: "engine \<Rightarrow> engine" where
  "clearTray e =
     e\<lparr>midCounts := replicate COLS 0, lastSample := [], sampleParticles := [],
       emissionPlan := None, gatherParticles := [], gathering := False, needsRedraw := True\<rparr>"

definition resetExperiment :: "engine \<Rightarrow> engine" where
  "resetExperiment e =
     e\<lparr>botCounts := replicate STAT_BINS 0, statParticles := [], needsRedraw := True\<rparr>"

text \<open>One round of the loop of \<open>handleRepeatTurbo\<close>, and the function.\<close>

definition turbo_round :: "nat \<Rightarrow> engine \<Rightarrow> engine" where
  "turbo_round n e =
     (let ((xs, cols), t) = sampleN COLS (popCounts e) n (rng e);
          v = computeStat (statistic e) (threshold e) xs;
          (mn, mx) = statDomain (statistic e);
          bin = bin_of_stat_eps v mn mx STAT_BINS
      in e\<lparr>rng := t, botCounts := ta_inc_at U32 (botCounts e) bin\<rparr>)"

definition handleRepeatTurbo :: "nat \<Rightarrow> engine \<Rightarrow> engine" where
  "handleRepeatTurbo n e = ((turbo_round n ^^ 1000) e)\<lparr>needsRedraw := True\<rparr>"

text \<open>
  What happens to an engine and its pending calls, each event with the time at which it
  happens: a draw request, a frame of the animation loop, a pending call that runs, and
  the two halves of the reset button.
\<close>

datatype event =
    Draw nat real
  | Frame real
  | Timeout
  | ClearTray
  | ResetExperiment
  | RepeatTurbo nat

fun step :: "real \<times> event \<Rightarrow> world \<Rightarrow> world" where
  "step (now, Draw n dropMs) w = drawSampleWithAutoCalculate now n dropMs w"
| "step (now, Frame dt) w = w\<lparr>w_engine := tick dt now (w_engine w)\<rparr>"
| "step (now, Timeout) w =
     (let (ts, e) = fire_timer now (w_timers w) (w_engine w)
      in w\<lparr>w_engine := e, w_timers := ts\<rparr>)"
| "step (now, ClearTray) w = w\<lparr>w_engine := clearTray (w_engine w)\<rparr>"
| "step (now, ResetExperiment) w = w\<lparr>w_engine := resetExperiment (w_engine w)\<rparr>"
| "step (now, RepeatTurbo n) w = w\<lparr>w_engine := handleRepeatTurbo n (w_engine w)\<rparr>"

definition run :: "(real \<times> event) list \<Rightarrow> world \<Rightarrow> world" where
  "run evs w = fold step evs w"

definition new_world :: world where
  "new_world = \<lparr>w_engine = new_Engine, w_timers = []\<rparr>"

section \<open>The engine of the shared module and its application\<close>

text \<open>
  \<open>StatEngine\<close> of the shared module, with the configuration fields \<open>cols\<close>, \<open>statBins\<close>
  and \<open>seed\<close> (the colours are left out). The lists under \<open>particles\<close> and the record
  \<open>animations\<close> are created by \<open>reset\<close>; no code of the module puts anything into them,
  so the type of their elements is not determined by the source.
\<close>

record se_animations =
  an_emission :: "unit option"
  an_gathering :: bool
  an_gatherStart :: real
  an_gatherDuration :: real

record stat_engine =
  cfg_cols :: nat
  cfg_statBins :: nat
  cfg_seed :: int
  populationData :: "nat list"
  sampleData :: "nat list"
  samplingDistData :: "nat list"
  currentSample :: "real list"
  se_statistic :: string
  se_threshold :: real
  se_speed :: string
  particles_sampling :: "unit list"
  particles_statistic :: "unit list"
  particles_effects :: "unit list"
  animations :: se_animations
  se_rng :: rng

record se_options =
  opt_cols :: "nat option"
  opt_statBins :: "nat option"
  opt_seed :: "int option"

definition reset :: "stat_engine \<Rightarrow> stat_engine" where
  "reset e =
     e\<lparr>populationData := replicate (cfg_cols e) 0,
       sampleData := replicate (cfg_cols e) 0,
       samplingDistData := replicate (cfg_statBins e) 0,
       currentSample := [], se_statistic := ''mean'', se_threshold := 0.5, se_speed := ''normal'',
       particles_sampling := [], particles_statistic := [], particles_effects := [],
       animations := \<lparr>an_emission = None, an_gathering = False, an_gatherStart = 0,
                       an_gatherDuration = 260\<rparr>\<rparr>"

text \<open>
  The constructor. The configuration takes a key of \<open>options\<close> when the key is there
  (the spread \<open>...options\<close> comes last) and the default when it is not.
\<close>

definition new_StatEngine :: "se_options \<Rightarrow> stat_engine" where
  "new_StatEngine options =
     (let cols = (case opt_cols options of None \<Rightarrow> 60 | Some c \<Rightarrow> c);
          statBins = (case opt_statBins options of None \<Rightarrow> 60 | Some b \<Rightarrow> b);
          seed = (case opt_seed options of None \<Rightarrow> 1234 | Some sd \<Rightarrow> sd)
      in (reset \<lparr>cfg_cols = cols, cfg_statBins = statBins, cfg_seed = seed,
                  populationData = [], sampleData = [], samplingDistData = [],
                  currentSample = [], se_statistic = [], se_threshold = 0, se_speed = [],
                  particles_sampling = [], particles_statistic = [], particles_effects = [],
                  animations = \<lparr>an_emission = None, an_gathering = False, an_gatherStart = 0,
                                  an_gatherDuration = 0\<rparr>,
                  se_rng = 0\<rparr>)\<lparr>se_rng := createRNG seed\<rparr>)"




definition getPopulationStats :: "stat_engine \<Rightarrow> pop_stats" where
  "getPopulationStats e = popStats (cfg_cols e) (populationData e) (se_threshold e)"


text \<open>\<open>drawSample\<close>: the object returned and the engine after the call.\<close>

definition drawSample :: "nat \<Rightarrow> stat_engine \<Rightarrow> (real list \<times> nat list) \<times> stat_engine" where
  "drawSample sampleSize e =
     (let ((sample, sampleCols), t) = sampleN (cfg_cols e) (populationData e) sampleSize (se_rng e)
      in ((sample, sampleCols), e\<lparr>se_rng := t, currentSample := sample\<rparr>))"

definition getStatisticDomain :: "stat_engine \<Rightarrow> real \<times> real" where
  "getStatisticDomain e = statDomain (se_statistic e)"

definition addToSamplingDistribution :: "jsnum \<Rightarrow> stat_engine \<Rightarrow> stat_engine" where
  "addToSamplingDistribution statisticValue e =
     (let (mn, mx) = getStatisticDomain e;
          bin = bin_of_stat statisticValue mn mx (cfg_statBins e)
      in e\<lparr>samplingDistData := ta_inc_at U32 (samplingDistData e) bin\<rparr>)"



definition clearSample :: "stat_engine \<Rightarrow> stat_engine" where
  "clearSample e = e\<lparr>sampleData := map (\<lambda>_. 0) (sampleData e), currentSample := []\<rparr>"



text \<open>
  The application on top of the engine: \<open>updateSampleVisualization\<close>, \<open>drawSample\<close> and
  \<open>setSeed\<close> of \<open>CLTApp\<close>.
\<close>

definition updateSampleVisualization :: "nat list \<Rightarrow> stat_engine \<Rightarrow> stat_engine" where
  "updateSampleVisualization columns e =
     (let e1 = clearSample e
      in e1\<lparr>sampleData := fold (\<lambda>col sd. ta_inc U16 sd col) columns (sampleData e1)\<rparr>)"







section \<open>The sampler and the summaries in the words of the specification\<close>

text \<open>The running cumulative weight when the walk has added column \<open>c\<close>.\<close>

definition cum_weight :: "nat list \<Rightarrow> nat \<Rightarrow> nat" where
  "cum_weight weights c = sum_list (take (Suc c) weights)"

text \<open>
  Column \<open>c\<close> is the first (lowest) column at which the running cumulative weight reaches
  or exceeds \<open>target\<close>.
\<close>

definition first_reaching :: "nat list \<Rightarrow> real \<Rightarrow> nat \<Rightarrow> bool" where
  "first_reaching weights target c =
     (target \<le> real (cum_weight weights c) \<and> (\<forall>j<c. real (cum_weight weights j) < target))"

text \<open>
  The formula of the specification with the denominator that \<open>calculateWithGather\<close> and
  \<open>handleRepeatTurbo\<close> use, \<open>max - min + 1e-9\<close>.
\<close>

definition spec_bin_eps :: "real \<Rightarrow> real \<Rightarrow> real \<Rightarrow> nat \<Rightarrow> int" where
  "spec_bin_eps v mn mx B =
     clampi \<lfloor>(v - mn) / (mx - mn + 1 / 1000000000) * real B\<rfloor> 0 (int B - 1)"


section \<open>Notions and states used in the statements about the animation\<close>


text \<open>
  Four states of a fresh engine (seed 1234, empty population): a draw of two values has
  just been requested at time 0; its two particles have been released and have landed
  (one tick at time 1200); a gather started at time 2000 has completed at time 2260 and
  its particle is falling; and the world of the second state.
\<close>

definition drawn_pair :: engine where
  "drawn_pair = startSample 0 2 1200 new_Engine"

definition settled_pair :: engine where
  "settled_pair = tick 1 1200 drawn_pair"


definition settled_world :: world where
  "settled_world = run [(0, Draw 2 1200), (1200, Frame 1)] new_world"





section \<open>The standard deviation of a sample\<close>

lemma foldl_add_sum: "foldl (\<lambda>s x. s + f x) z a = z + (\<Sum>x\<leftarrow>a. f x)" for z :: real
  by (induction a arbitrary: z) simp_all

lemma mean_sum: "a \<noteq> [] \<Longrightarrow> mean a = Num (sum_list a / real (length a))"
  using foldl_add_sum [of "\<lambda>x. x" 0 a] by (simp add: mean_def)

lemma varianceUnbiased_eq:
  assumes n: "2 \<le> length a"
  shows "varianceUnbiased a = Num (sample_variance a)"
proof -
  from n have ne: "a \<noteq> []" by auto
  have r: "real (length a - 1) = real (length a) - 1" using n by (simp add: of_nat_diff)
  show ?thesis
    using n by (simp add: varianceUnbiased_def Let_def mean_sum [OF ne] foldl_add_sum
        sample_variance_def r)
qed

lemma variance_unbiased_eq: "variance a True = varianceUnbiased a"
  by (simp add: variance_def varianceUnbiased_def)

lemma standardDeviation_eq: "standardDeviation a True = robustSD a"
  by (simp add: standardDeviation_def robustSD_def variance_unbiased_eq)

lemma sample_variance_nonneg: "2 \<le> length a \<Longrightarrow> 0 \<le> sample_variance a"
  by (auto simp: sample_variance_def intro!: divide_nonneg_nonneg sum_list_nonneg)

lemma robustSD_cases:
  "robustSD a = (if length a < 2 then Num 0 else Num (sqrt (sample_variance a)))"
proof (cases "length a < 2")
  case True
  then show ?thesis by (simp add: robustSD_def varianceUnbiased_def)
next
  case False
  then have "2 \<le> length a" by simp
  then show ?thesis
    by (simp add: robustSD_def varianceUnbiased_eq sample_variance_nonneg)
qed

text \<open>
  C1, as the code has it. With the statistic \<open>sd\<close>, \<open>computeStat\<close> and
  \<open>computeStatistic\<close> return \<open>NaN\<close> for the empty sample, the number 0 for a sample of
  one value (the variance is \<open>NaN\<close> there, and \<open>robustSD\<close> / \<open>standardDeviation\<close>
  turn a variance that is not finite into 0), and the square root of the sample variance
  with denominator \<open>n - 1\<close> for a sample of two values or more.
\<close>

theorem computeStat_sd:
  "computeStat ''sd'' thr xs =
     (if xs = [] then NaN else if length xs = 1 then Num 0 else Num (sqrt (sample_variance xs)))
   \<and> computeStatistic ''sd'' thr xs =
     (if xs = [] then NaN else if length xs = 1 then Num 0 else Num (sqrt (sample_variance xs)))"
  by (cases xs) (auto simp: computeStat_def computeStatistic_def standardDeviation_eq robustSD_cases)

theorem computeStat_sd_witness:
  "computeStat ''sd'' (1/2) [] = NaN \<and> computeStat ''sd'' (1/2) [1/4, 3/4] = Num (sqrt (1/8))"
  using computeStat_sd [of "1/2" "[]"] computeStat_sd [of "1/2" "[1/4, 3/4]"]
  by (simp add: sample_variance_def power2_eq_square)

text \<open>
  C1 as stated fails for a sample of one value: the result is the number 0, not \<open>NaN\<close>.
\<close>

theorem computeStat_sd_singleton_counterexample:
  "length [1/2 :: real] < 2 \<and> computeStat ''sd'' (1/2) [1/2] = Num 0
     \<and> computeStatistic ''sd'' (1/2) [1/2] = Num 0"
  by (simp add: computeStat_def computeStatistic_def robustSD_def standardDeviation_def
      varianceUnbiased_def variance_def)

section \<open>The stream and the sampler\<close>

declare walk_bins.simps [simp del]

lemma unat32_bound: "real (unat (w :: 32 word)) < 4294967296"
proof -
  have "unat w < 2 ^ 32" using unsigned_less [of w] by simp
  then have "unat w < 4294967296" by simp
  then show ?thesis by linarith
qed

lemma rng_call_range: "0 \<le> fst (rng_call t) \<and> fst (rng_call t) < 1"
proof -
  define w where "w = mix32 (word_of_int (t + 0x6D2B79F5))"
  have eq: "fst (rng_call t) = real (unat w) / 4294967296"
    by (simp add: rng_call_def Let_def w_def)
  have "0 \<le> real (unat w)" by (rule of_nat_0_le_iff)
  moreover have "real (unat w) < 4294967296" by (rule unat32_bound)
  ultimately show ?thesis unfolding eq by (simp del: of_nat_unat)
qed

lemma rng_call_snd: "snd (rng_call t) = t + 0x6D2B79F5"
  by (simp add: rng_call_def Let_def)

lemma rng_take_range: "r \<in> set (rng_take n t) \<Longrightarrow> 0 \<le> r \<and> r < 1"
proof (induction n arbitrary: t)
  case 0
  then show ?case by simp
next
  case (Suc n)
  then show ?case using rng_call_range [of t] by (auto simp: split_beta Let_def)
qed

lemma length_rng_take: "length (rng_take n t) = n"
  by (induction n arbitrary: t) (simp_all add: split_beta Let_def)

lemma choose_uniform_lt:
  assumes "0 < cols" "0 \<le> r" "r < 1"
  shows "choose_uniform cols r < cols"
proof -
  have "r * real cols < real cols" using assms by simp
  then have "\<lfloor>r * real cols\<rfloor> < int cols" by (simp add: floor_less_iff)
  moreover have "0 \<le> \<lfloor>r * real cols\<rfloor>" using assms by simp
  ultimately show ?thesis by (simp add: choose_uniform_def nat_less_iff)
qed

lemma walk_bins_Some_range:
  "walk_bins cols weights target c acc = Some k \<Longrightarrow> c \<le> k \<and> k < cols"
proof (induction cols weights target c acc rule: walk_bins.induct)
  case (1 cols weights target c acc)
  show ?case
  proof (cases "c < cols")
    case True
    show ?thesis
    proof (cases "target \<le> real (acc + weights ! c)")
      case t: True
      with True "1.prems" show ?thesis by (simp add: walk_bins.simps Let_def)
    next
      case f: False
      with True "1.prems" have "walk_bins cols weights target (Suc c) (acc + weights ! c) = Some k"
        by (simp add: walk_bins.simps [of cols weights target c] Let_def)
      from "1.IH" [OF True refl f this] show ?thesis by simp
    qed
  next
    case False
    with "1.prems" show ?thesis by (simp add: walk_bins.simps)
  qed
qed

lemma choose_weighted_lt: "0 < cols \<Longrightarrow> choose_weighted cols weights tot r < cols"
  by (auto simp: choose_weighted_def dest: walk_bins_Some_range split: option.splits)

text \<open>The loop of the sampler maps the numbers of the stream, in order, to columns.\<close>

lemma sample_loop_spec:
  "sample_loop pick cols n t =
     ((map (\<lambda>r. bin_center cols (pick r)) (rng_take n t), map pick (rng_take n t)),
      ((snd \<circ> rng_call) ^^ n) t)"
proof (induction n arbitrary: t)
  case 0
  show ?case by simp
next
  case (Suc n)
  show ?case
    by (simp add: Suc.IH split_beta Let_def funpow_Suc_right del: funpow.simps)
qed

lemma sampleN_cols_lt:
  assumes "0 < cols" and "sampleN cols weights n t = ((xs, cs), t')"
  shows "length cs = n \<and> (\<forall>c\<in>set cs. c < cols)"
proof -
  have len: "length cs = n"
    using assms(2) by (auto simp: sampleN_def Let_def sample_loop_spec length_rng_take split: if_splits)
  have "c < cols" if "c \<in> set cs" for c
  proof (cases "total_weight cols weights = 0")
    case True
    with assms(2) have "cs = map (choose_uniform cols) (rng_take n t)"
      by (simp add: sampleN_def sample_loop_spec Let_def)
    with that obtain r where "r \<in> set (rng_take n t)" "c = choose_uniform cols r" by auto
    then show ?thesis using choose_uniform_lt [OF assms(1)] rng_take_range by blast
  next
    case False
    with assms(2) have "cs = map (choose_weighted cols weights (total_weight cols weights)) (rng_take n t)"
      by (simp add: sampleN_def sample_loop_spec Let_def)
    with that show ?thesis using choose_weighted_lt [OF assms(1)] by auto
  qed
  with len show ?thesis by blast
qed

lemma rng_take_2_1234: "rng_take 2 1234 = [157399767 / 2147483648, 755282873 / 1073741824]"
proof -
  have "rng_take (Suc (Suc 0)) 1234 = [157399767 / 2147483648, 755282873 / 1073741824]"
    by (simp add: rng_call_def Let_def mix32_def imul_def)
  then show ?thesis by (simp only: numeral_2_eq_2)
qed

lemma rng_after_2_1234: "((snd \<circ> rng_call) ^^ 2) 1234 = 3663132860"
proof -
  have "((snd \<circ> rng_call) ^^ Suc (Suc 0)) 1234 = 3663132860"
    by (simp add: rng_call_def Let_def)
  then show ?thesis by (simp only: numeral_2_eq_2)
qed

lemma fold_index_sum:
  "n \<le> length w \<Longrightarrow> fold (\<lambda>i s. s + w ! i) [0..<n] a = a + sum_list (take n w)" for a :: nat
proof (induction n)
  case 0
  show ?case by simp
next
  case (Suc n)
  then show ?case by (simp add: take_Suc_conv_app_nth)
qed

lemma total_weight_sum: "length weights = cols \<Longrightarrow> total_weight cols weights = sum_list weights"
  by (simp add: total_weight_def fold_index_sum)

lemma sample_zero_pop:
  "sampleN 60 (replicate 60 0) 2 1234 = (([3/40, 17/24], [4, 42]), 3663132860)"
  by (simp add: sampleN_def total_weight_sum sample_loop_spec rng_take_2_1234 rng_after_2_1234
        choose_uniform_def bin_center_def)

text \<open>
  C10. Whatever the population histogram is (all zero or not), every column that the
  sampler returns is below the column count, and there are \<open>n\<close> of them.
\<close>

theorem sampled_columns_in_range:
  assumes "0 < cols" and "sampleN cols weights n t = ((xs, cs), t')"
  shows "length cs = n \<and> (\<forall>c\<in>set cs. c < cols)"
  using assms by (rule sampleN_cols_lt)

theorem sampled_columns_in_range_witness:
  "(0::nat) < 60 \<and> sampleN 60 (replicate 60 0) 2 1234 = (([3/40, 17/24], [4, 42]), 3663132860)
   \<and> length [4, 42 :: nat] = 2 \<and> (4 :: nat) < 60 \<and> (42 :: nat) < 60"
  using sampled_columns_in_range [of 60 "replicate 60 0" 2 1234 "[3/40, 17/24]" "[4, 42]" 3663132860]
    sample_zero_pop by simp

text \<open>The walk stops at the first column that reaches the target, if there is one.\<close>

lemma walk_bins_first:
  assumes "length weights = cols"
    and "acc = sum_list (take c weights)"
    and "\<forall>j<c. real (cum_weight weights j) < target"
  shows "case walk_bins cols weights target c acc of
           Some k \<Rightarrow> first_reaching weights target k \<and> k < cols
         | None \<Rightarrow> (\<forall>j<cols. real (cum_weight weights j) < target)"
  using assms
proof (induction cols weights target c acc rule: walk_bins.induct)
  case (1 cols weights target c acc)
  show ?case
  proof (cases "c < cols")
    case True
    have cum: "acc + weights ! c = cum_weight weights c"
      using True "1.prems" by (simp add: cum_weight_def take_Suc_conv_app_nth)
    show ?thesis
    proof (cases "target \<le> real (acc + weights ! c)")
      case t: True
      then have "walk_bins cols weights target c acc = Some c"
        using True by (subst walk_bins.simps) (simp add: Let_def)
      moreover have "first_reaching weights target c"
        using t "1.prems"(3) by (simp add: first_reaching_def cum)
      ultimately show ?thesis using True by simp
    next
      case f: False
      have step: "walk_bins cols weights target c acc
                    = walk_bins cols weights target (Suc c) (acc + weights ! c)"
        using True f by (subst walk_bins.simps) (simp add: Let_def)
      have inv: "\<forall>j<Suc c. real (cum_weight weights j) < target"
        using f "1.prems"(3) cum by (auto simp: less_Suc_eq)
      have acc': "acc + weights ! c = sum_list (take (Suc c) weights)"
        using cum by (simp add: cum_weight_def)
      from "1.IH" [OF True refl f "1.prems"(1) acc' inv] show ?thesis
        by (simp only: step)
    qed
  next
    case False
    then have "walk_bins cols weights target c acc = None"
      by (subst walk_bins.simps) simp
    moreover from False "1.prems"(3) have "\<forall>j<cols. real (cum_weight weights j) < target"
      by auto
    ultimately show ?thesis by simp
  qed
qed

text \<open>
  With a positive total and a number below 1 the target is below the total, which the
  last column reaches: the walk never falls through to the middle column.
\<close>

lemma choose_weighted_first:
  assumes len: "length weights = cols" and pos: "0 < sum_list weights"
    and r: "r < 1"
  shows "first_reaching weights (r * real (sum_list weights))
           (choose_weighted cols weights (sum_list weights) r)"
proof -
  let ?target = "r * real (sum_list weights)"
  have cols: "0 < cols" using len pos by (cases weights) auto
  have w: "case walk_bins cols weights ?target 0 0 of
             Some k \<Rightarrow> first_reaching weights ?target k \<and> k < cols
           | None \<Rightarrow> (\<forall>j<cols. real (cum_weight weights j) < ?target)"
    by (rule walk_bins_first [OF len]) simp_all
  show ?thesis
  proof (cases "walk_bins cols weights ?target 0 0")
    case None
    with w have "real (cum_weight weights (cols - 1)) < ?target" using cols by simp
    moreover have "cum_weight weights (cols - 1) = sum_list weights"
      using cols len by (simp add: cum_weight_def)
    moreover have "?target < real (sum_list weights)" using r pos by simp
    ultimately show ?thesis by simp
  next
    case (Some k)
    with w show ?thesis by (simp add: choose_weighted_def)
  qed
qed

text \<open>
  C5. For a histogram of \<open>cols\<close> columns the sampler returns \<open>n\<close> values and \<open>n\<close>
  columns and leaves the stream where \<open>n\<close> calls leave it. Element \<open>i\<close> is made from
  the \<open>i\<close>-th number \<open>r\<close> of the stream alone: its value is the centre of its column,
  and its column is \<open>floor (r * cols)\<close> when the total weight is 0 and otherwise the
  first column at which the cumulative weight reaches or exceeds \<open>r * total\<close>.
\<close>

theorem sampler_inverse_cdf:
  assumes "length weights = cols" and "sampleN cols weights n t = ((xs, cs), t')"
  shows "length xs = n \<and> length cs = n \<and> t' = ((snd \<circ> rng_call) ^^ n) t
         \<and> (\<forall>i<n. xs ! i = bin_center cols (cs ! i)
                \<and> (if sum_list weights = 0 then cs ! i = nat \<lfloor>rng_take n t ! i * real cols\<rfloor>
                    else first_reaching weights (rng_take n t ! i * real (sum_list weights)) (cs ! i)))"
proof (cases "sum_list weights = 0")
  case True
  have s: "sampleN cols weights n t = sample_loop (choose_uniform cols) cols n t"
    using True assms(1) by (simp add: sampleN_def total_weight_sum Let_def del: sum_list_eq_0_iff)
  from assms(2) have eq: "xs = map (\<lambda>r. bin_center cols (choose_uniform cols r)) (rng_take n t)"
      "cs = map (choose_uniform cols) (rng_take n t)" "t' = ((snd \<circ> rng_call) ^^ n) t"
    unfolding s sample_loop_spec by simp_all
  show ?thesis
    using True by (simp add: eq length_rng_take choose_uniform_def del: sum_list_eq_0_iff)
next
  case False
  have s: "sampleN cols weights n t
             = sample_loop (choose_weighted cols weights (sum_list weights)) cols n t"
    using False assms(1) by (simp add: sampleN_def total_weight_sum Let_def del: sum_list_eq_0_iff)
  from assms(2) have eq:
      "xs = map (\<lambda>r. bin_center cols (choose_weighted cols weights (sum_list weights) r))
              (rng_take n t)"
      "cs = map (choose_weighted cols weights (sum_list weights)) (rng_take n t)"
      "t' = ((snd \<circ> rng_call) ^^ n) t"
    unfolding s sample_loop_spec by simp_all
  have "first_reaching weights (rng_take n t ! i * real (sum_list weights)) (cs ! i)"
    if "i < n" for i
  proof -
    have "rng_take n t ! i \<in> set (rng_take n t)" using that by (simp add: length_rng_take)
    then have "rng_take n t ! i < 1" using rng_take_range by blast
    then show ?thesis
      using choose_weighted_first [OF assms(1), of "rng_take n t ! i"] False that
      by (simp add: eq length_rng_take del: sum_list_eq_0_iff)
  qed
  then show ?thesis using False by (simp add: eq length_rng_take del: sum_list_eq_0_iff)
qed

lemma sample_weighted:
  "sampleN 4 [1, 0, 2, 1] 2 1234 = (([1/8, 5/8], [0, 2]), 3663132860)"
  by (simp add: sampleN_def total_weight_sum sample_loop_spec rng_take_2_1234 rng_after_2_1234
        choose_weighted_def bin_center_def Let_def walk_bins.simps)

theorem sampler_inverse_cdf_witness:
  "length [1, 0, 2, 1 :: nat] = 4
   \<and> sampleN 4 [1, 0, 2, 1] 2 1234 = (([1/8, 5/8], [0, 2]), 3663132860)
   \<and> first_reaching [1, 0, 2, 1] (rng_take 2 1234 ! 0 * 4) 0
   \<and> first_reaching [1, 0, 2, 1] (rng_take 2 1234 ! 1 * 4) 2"
proof -
  have len: "length [1, 0, 2, 1 :: nat] = 4" by simp
  note h = sampler_inverse_cdf [OF len sample_weighted]
  then have a: "\<forall>i<2. (if sum_list [1, 0, 2, 1 :: nat] = 0
                        then [0, 2] ! i = nat \<lfloor>rng_take 2 1234 ! i * real 4\<rfloor>
                        else first_reaching [1, 0, 2, 1]
                               (rng_take 2 1234 ! i * real (sum_list [1, 0, 2, 1 :: nat])) ([0, 2] ! i))"
    by blast
  from a [rule_format, of 0] a [rule_format, of 1] sample_weighted show ?thesis
    by (simp del: rng_take.simps)
qed

section \<open>The summaries of the population\<close>

lemma fold_upt_sum_real:
  "fold (\<lambda>c s. s + f c) [0..<n] a = a + (\<Sum>c<n. f c)" for a :: real
  by (induction n) simp_all

lemma fold_upt_pair:
  "fold (\<lambda>c (tot, mu). (tot + f c, mu + g c)) [0..<n] (a, b)
     = (a + (\<Sum>c<n. f c), b + (\<Sum>c<n. g c))" for a :: nat and b :: real
  by (induction n) simp_all

lemma fold_upt_cond:
  "fold (\<lambda>c g. if P c then g + f c else g) [0..<n] a = a + (\<Sum>c\<in>{c. c < n \<and> P c}. f c)"
  for a :: nat
proof (induction n)
  case 0
  show ?case by simp
next
  case (Suc n)
  have split: "{c. c < Suc n \<and> P c}
                 = (if P n then insert n {c. c < n \<and> P c} else {c. c < n \<and> P c})"
    by (auto simp: less_Suc_eq)
  show ?case using Suc by (simp add: split)
qed

lemma sum_nth_sum_list: "length w = n \<Longrightarrow> (\<Sum>c<n. w ! c) = sum_list w" for w :: "nat list"
  by (metis atLeast0LessThan sum_list_sum_nth)

text \<open>
  C9. For a histogram of \<open>cols\<close> columns with a positive total weight: the total; the
  mean of the column centres weighted by the counts; the square root of the weighted
  squared deviation from that mean divided by the total weight; the centre of the first
  column at which the cumulative weight reaches or exceeds half of the total; and the
  weight of the columns whose centre is strictly above the threshold, divided by the total.
\<close>

theorem popStats_summaries:
  assumes len: "length pc = cols" and pos: "0 < sum_list pc"
  shows "ps_total (popStats cols pc thr) = sum_list pc
     \<and> ps_mu (popStats cols pc thr)
         = (\<Sum>c<cols. real (pc ! c) * bin_center cols c) / real (sum_list pc)
     \<and> ps_sd (popStats cols pc thr)
         = sqrt ((\<Sum>c<cols. real (pc ! c) * (bin_center cols c - ps_mu (popStats cols pc thr)) ^ 2)
                  / real (sum_list pc))
     \<and> (\<exists>c<cols. first_reaching pc (real (sum_list pc) / 2) c
              \<and> ps_med (popStats cols pc thr) = bin_center cols c)
     \<and> ps_pthr (popStats cols pc thr)
         = real (\<Sum>c\<in>{c. c < cols \<and> bin_center cols c > thr}. pc ! c) / real (sum_list pc)"
proof -
  let ?tot = "sum_list pc"
  have tot: "(\<Sum>c<cols. pc ! c) = ?tot" using len by (rule sum_nth_sum_list)
  have ne: "?tot \<noteq> 0" using pos by (simp del: sum_list_eq_0_iff)
  have walk: "case walk_bins cols pc (real ?tot / 2) 0 0 of
             Some k \<Rightarrow> first_reaching pc (real ?tot / 2) k \<and> k < cols
           | None \<Rightarrow> (\<forall>j<cols. real (cum_weight pc j) < real ?tot / 2)"
    by (rule walk_bins_first [OF len]) simp_all
  have cols: "0 < cols" using len pos by (cases pc) (auto simp del: sum_list_eq_0_iff)
  have med: "\<exists>c<cols. first_reaching pc (real ?tot / 2) c
      \<and> (case walk_bins cols pc (real ?tot / 2) 0 0 of Some c \<Rightarrow> bin_center cols c | None \<Rightarrow> 0.5)
          = bin_center cols c"
  proof (cases "walk_bins cols pc (real ?tot / 2) 0 0")
    case None
    with walk have "real (cum_weight pc (cols - 1)) < real ?tot / 2" using cols by simp
    moreover have "cum_weight pc (cols - 1) = ?tot" using cols len by (simp add: cum_weight_def)
    ultimately show ?thesis by simp
  next
    case (Some k)
    with walk show ?thesis by auto
  qed
  show ?thesis
    using ne med
    by (simp add: popStats_def fold_upt_pair fold_upt_sum_real fold_upt_cond tot Let_def
        power2_eq_square mult.assoc del: sum_list_eq_0_iff)
qed

lemma lessThan_4: "{..<4::nat} = {0, 1, 2, 3}"
  by auto

theorem popStats_summaries_witness:
  "length [1, 0, 2, 1 :: nat] = 4 \<and> 0 < sum_list [1, 0, 2, 1 :: nat]
   \<and> ps_total (popStats 4 [1, 0, 2, 1] (1/2)) = 4
   \<and> ps_mu (popStats 4 [1, 0, 2, 1] (1/2)) = 9/16
   \<and> ps_sd (popStats 4 [1, 0, 2, 1] (1/2)) = sqrt (19/256)
   \<and> ps_pthr (popStats 4 [1, 0, 2, 1] (1/2)) = 3/4"
proof -
  have len: "length [1, 0, 2, 1 :: nat] = 4" by simp
  have pos: "0 < sum_list [1, 0, 2, 1 :: nat]" by simp
  note h = popStats_summaries [OF len pos, of "1/2"]
  from h have mu: "ps_mu (popStats 4 [1, 0, 2, 1] (1/2)) = 9/16"
    by (simp add: lessThan_4 bin_center_def)
  from h have sd: "ps_sd (popStats 4 [1, 0, 2, 1] (1/2)) = sqrt (19/256)"
    unfolding mu by (simp add: lessThan_4 bin_center_def power2_eq_square)
  have above: "{c. c < (4::nat) \<and> bin_center 4 c > 1/2} = {2, 3}"
    by (auto simp: bin_center_def)
  from h have p: "ps_pthr (popStats 4 [1, 0, 2, 1] (1/2)) = 3/4"
    unfolding above by simp
  from h mu sd p show ?thesis by simp
qed

section \<open>The bin of an observation\<close>

lemma clampi_floor_clamp:
  "clampi \<lfloor>clamp x 0 1 * real B\<rfloor> 0 (int B - 1) = clampi \<lfloor>x * real B\<rfloor> 0 (int B - 1)"
proof -
  consider "x < 0" | "0 \<le> x" "x \<le> 1" | "1 < x" by linarith
  then show ?thesis
  proof cases
    case 1
    then have "x * real B \<le> 0" by (simp add: mult_le_0_iff)
    then have fl: "\<lfloor>x * real B\<rfloor> \<le> 0" by (simp add: floor_le_iff)
    have l: "clamp x 0 1 = 0" using 1 by (simp add: clamp_def)
    have "clampi \<lfloor>x * real B\<rfloor> 0 (int B - 1) = 0" unfolding clampi_def using fl by arith
    moreover have "clampi \<lfloor>clamp x 0 1 * real B\<rfloor> 0 (int B - 1) = 0"
      unfolding l clampi_def by simp
    ultimately show ?thesis by simp
  next
    case 2
    then show ?thesis by (simp add: clamp_def)
  next
    case 3
    then have "real B \<le> x * real B" by (simp add: mult_le_cancel_right1)
    then have fl: "int B \<le> \<lfloor>x * real B\<rfloor>" by (simp add: le_floor_iff)
    have l: "clamp x 0 1 = 1" using 3 by (simp add: clamp_def)
    have "clampi \<lfloor>x * real B\<rfloor> 0 (int B - 1) = max 0 (int B - 1)"
      unfolding clampi_def using fl by arith
    moreover have "clampi \<lfloor>clamp x 0 1 * real B\<rfloor> 0 (int B - 1) = max 0 (int B - 1)"
      unfolding l clampi_def by simp
    ultimately show ?thesis by simp
  qed
qed

lemma bin_of_stat_spec: "bin_of_stat (Num v) mn mx B = Some (nat (spec_bin v mn mx B))"
  by (simp add: bin_of_stat_def spec_bin_def clampi_floor_clamp)

lemma bin_of_stat_eps_spec: "bin_of_stat_eps (Num v) mn mx B = Some (nat (spec_bin_eps v mn mx B))"
  by (simp add: bin_of_stat_eps_def spec_bin_eps_def clampi_floor_clamp)

lemma createRNG_1234: "createRNG 1234 = 1234"
  by (simp add: createRNG_def)

lemma new_Engine_fields:
  "popCounts new_Engine = replicate 60 0" "botCounts new_Engine = replicate 60 0"
  "midCounts new_Engine = replicate 60 0"
  "rng new_Engine = 1234" "threshold new_Engine = 1/2" "statistic new_Engine = ''mean''"
  "lastSample new_Engine = []"
  by (simp_all add: new_Engine_def resetGeometry_def Let_def COLS_def STAT_BINS_def createRNG_1234)

lemma turbo_round_bin:
  assumes "sampleN COLS (popCounts e) n (rng e) = ((xs, cs), t)"
    and "computeStat (statistic e) (threshold e) xs = Num v"
  shows "botCounts (turbo_round n e)
           = ta_inc U32 (botCounts e)
               (nat (spec_bin_eps v (fst (statDomain (statistic e))) (snd (statDomain (statistic e)))
                      STAT_BINS))"
  using assms by (simp add: turbo_round_def split_beta bin_of_stat_eps_spec ta_inc_at_def)

lemma gather_bin:
  assumes "length (lastSample e) \<noteq> 0 \<or> hasSampleInMid e"
    and "computeStat (statistic e) (threshold e)
           (if length (lastSample e) \<noteq> 0 then lastSample e else tray_values (midCounts e)) = Num v"
  shows "map_option gt_bin (gatherTarget (calculateWithGather now e))
           = Some (Some (nat (spec_bin_eps v (fst (statDomain (statistic e)))
                                (snd (statDomain (statistic e))) STAT_BINS)))"
  using assms
  by (auto simp add: calculateWithGather_def hasSampleInMid_def Let_def split_beta bin_of_stat_eps_spec)

lemma add_bin:
  "samplingDistData (addToSamplingDistribution (Num v) se)
     = ta_inc U32 (samplingDistData se)
         (nat (spec_bin v (fst (statDomain (se_statistic se))) (snd (statDomain (se_statistic se)))
                (cfg_statBins se)))"
  by (simp add: addToSamplingDistribution_def getStatisticDomain_def split_beta bin_of_stat_spec
      ta_inc_at_def)

lemma stat_half: "computeStat ''proportion'' (1/2) [3/40, 17/24] = Num (1/2)"
  by (simp add: computeStat_def)

lemma turbo_example:
  "botCounts (turbo_round 2 (new_Engine\<lparr>lastSample := xs, statistic := ''proportion''\<rparr>))
     = (replicate 60 0)[29 := 1]"
  by (simp add: turbo_round_def new_Engine_fields COLS_def STAT_BINS_def sample_zero_pop stat_half
      statDomain_def bin_of_stat_eps_def clamp_def clampi_def ta_inc_at_def ta_inc_def U32_def)

lemma gather_example:
  "map_option gt_bin (gatherTarget (calculateWithGather 0
       (new_Engine\<lparr>statistic := ''proportion'', lastSample := [3/40, 17/24]\<rparr>))) = Some (Some 29)"
  by (simp add: calculateWithGather_def new_Engine_fields COLS_def STAT_BINS_def stat_half
      statDomain_def bin_of_stat_eps_def clamp_def clampi_def Let_def)

lemma add_example:
  "samplingDistData (addToSamplingDistribution (Num (1/2))
      ((new_StatEngine \<lparr>opt_cols = None, opt_statBins = None, opt_seed = None\<rparr>)
         \<lparr>se_statistic := ''proportion''\<rparr>)) = (replicate 60 0)[30 := 1]"
  by (simp add: addToSamplingDistribution_def new_StatEngine_def reset_def getStatisticDomain_def
      statDomain_def bin_of_stat_def clamp_def clampi_def ta_inc_at_def ta_inc_def U32_def Let_def)

text \<open>
  C4, as the code has it. For a statistic value \<open>v\<close> that is a number and the domain
  \<open>(min, max)\<close> of the statistic, \<open>addToSamplingDistribution\<close> adds one to the bin
  \<open>clamp(floor((v - min) / (max - min) * B), 0, B - 1)\<close>. The gather path and turbo mode
  divide by \<open>max - min + 1e-9\<close>: the bin that \<open>calculateWithGather\<close> resolves, and the
  bin to which a round of \<open>handleRepeatTurbo\<close> adds one, is
  \<open>clamp(floor((v - min) / (max - min + 1e-9) * B), 0, B - 1)\<close>.
\<close>

theorem accumulator_bins:
  "samplingDistData (addToSamplingDistribution (Num v) se)
     = ta_inc U32 (samplingDistData se)
         (nat (spec_bin v (fst (statDomain (se_statistic se))) (snd (statDomain (se_statistic se)))
                (cfg_statBins se)))
   \<and> ((length (lastSample e) \<noteq> 0 \<or> hasSampleInMid e)
        \<and> computeStat (statistic e) (threshold e)
             (if length (lastSample e) \<noteq> 0 then lastSample e else tray_values (midCounts e)) = Num v
      \<longrightarrow> map_option gt_bin (gatherTarget (calculateWithGather now e))
            = Some (Some (nat (spec_bin_eps v (fst (statDomain (statistic e)))
                                 (snd (statDomain (statistic e))) STAT_BINS))))
   \<and> (computeStat (statistic e) (threshold e) (fst (fst (sampleN COLS (popCounts e) n (rng e)))) = Num v
      \<longrightarrow> botCounts (turbo_round n e)
            = ta_inc U32 (botCounts e)
                (nat (spec_bin_eps v (fst (statDomain (statistic e))) (snd (statDomain (statistic e)))
                       STAT_BINS)))"
proof -
  have "botCounts (turbo_round n e)
            = ta_inc U32 (botCounts e)
                (nat (spec_bin_eps v (fst (statDomain (statistic e))) (snd (statDomain (statistic e)))
                       STAT_BINS))"
    if "computeStat (statistic e) (threshold e) (fst (fst (sampleN COLS (popCounts e) n (rng e)))) = Num v"
    using that
      turbo_round_bin [of e n "fst (fst (sampleN COLS (popCounts e) n (rng e)))"
        "snd (fst (sampleN COLS (popCounts e) n (rng e)))"
        "snd (sampleN COLS (popCounts e) n (rng e))" v]
    by simp
  then show ?thesis using add_bin gather_bin by blast
qed

theorem accumulator_bins_witness:
  "samplingDistData (addToSamplingDistribution (Num (1/2))
      ((new_StatEngine \<lparr>opt_cols = None, opt_statBins = None, opt_seed = None\<rparr>)
         \<lparr>se_statistic := ''proportion''\<rparr>)) = (replicate 60 0)[30 := 1]
   \<and> map_option gt_bin (gatherTarget (calculateWithGather 0
        (new_Engine\<lparr>lastSample := [3/40, 17/24], statistic := ''proportion''\<rparr>))) = Some (Some 29)
   \<and> botCounts (turbo_round 2 (new_Engine\<lparr>lastSample := [3/40, 17/24], statistic := ''proportion''\<rparr>))
        = (replicate 60 0)[29 := 1]"
  using accumulator_bins [of "1/2"
      "(new_StatEngine \<lparr>opt_cols = None, opt_statBins = None, opt_seed = None\<rparr>)
         \<lparr>se_statistic := ''proportion''\<rparr>"
      "new_Engine\<lparr>lastSample := [3/40, 17/24], statistic := ''proportion''\<rparr>" 0 2]
  by (simp add: new_Engine_fields COLS_def STAT_BINS_def sample_zero_pop stat_half statDomain_def
      spec_bin_def spec_bin_eps_def clampi_def ta_inc_def U32_def new_StatEngine_def reset_def)

text \<open>
  C4 as stated fails on the turbo path. With the seed 1234, an all-zero population, two
  values per sample and the statistic \<open>proportion\<close> at threshold 0.5, the first sample has
  one value above the threshold: the statistic is 0.5, the bin of the specification's
  formula is 30, and the round adds one to bin 29.
\<close>

theorem turbo_bin_counterexample:
  "computeStat ''proportion'' (1/2)
     (fst (fst (sampleN COLS (popCounts new_Engine) 2 (rng new_Engine)))) = Num (1/2)
   \<and> spec_bin (1/2) 0 1 STAT_BINS = 30
   \<and> botCounts (turbo_round 2 (new_Engine\<lparr>statistic := ''proportion''\<rparr>))
        = (replicate 60 0)[29 := 1]"
proof -
  have e: "new_Engine\<lparr>statistic := ''proportion''\<rparr>
             = new_Engine\<lparr>lastSample := [], statistic := ''proportion''\<rparr>"
    by (simp add: new_Engine_def resetGeometry_def Let_def)
  show ?thesis
    unfolding e turbo_example
    by (simp add: new_Engine_fields COLS_def STAT_BINS_def sample_zero_pop stat_half spec_bin_def
        clampi_def)
qed

section \<open>Two runs from the same seed\<close>


lemma drawSample_seed:
  "drawSample n (e\<lparr>cfg_seed := x\<rparr>) = (fst (drawSample n e), (snd (drawSample n e))\<lparr>cfg_seed := x\<rparr>)"
  by (simp add: drawSample_def split_beta)

lemma addToSamplingDistribution_seed:
  "addToSamplingDistribution v (e\<lparr>cfg_seed := x\<rparr>) = (addToSamplingDistribution v e)\<lparr>cfg_seed := x\<rparr>"
  by (simp add: addToSamplingDistribution_def getStatisticDomain_def split_beta)


lemma updateSampleVisualization_seed:
  "updateSampleVisualization cs (e\<lparr>cfg_seed := x\<rparr>) = (updateSampleVisualization cs e)\<lparr>cfg_seed := x\<rparr>"
  by (simp add: updateSampleVisualization_def clearSample_def Let_def)














section \<open>Steps of a tick that leave a field alone\<close>

lemma tick_emission_frame:
  "midCounts (tick_emission now e) = midCounts e"
  "botCounts (tick_emission now e) = botCounts e"
  "statParticles (tick_emission now e) = statParticles e"
  "gathering (tick_emission now e) = gathering e"
  "gatherTarget (tick_emission now e) = gatherTarget e"
  "gatherStart (tick_emission now e) = gatherStart e"
  "gatherDur (tick_emission now e) = gatherDur e"
  "gatherParticles (tick_emission now e) = gatherParticles e"
  "speed (tick_emission now e) = speed e"
  by (simp_all add: tick_emission_def Let_def split_beta split: option.splits)

lemma tick_sample_frame:
  "botCounts (tick_sample g dt e) = botCounts e"
  "statParticles (tick_sample g dt e) = statParticles e"
  "gathering (tick_sample g dt e) = gathering e"
  "gatherTarget (tick_sample g dt e) = gatherTarget e"
  "gatherStart (tick_sample g dt e) = gatherStart e"
  "gatherDur (tick_sample g dt e) = gatherDur e"
  "gatherParticles (tick_sample g dt e) = gatherParticles e"
  "emissionPlan (tick_sample g dt e) = emissionPlan e"
  "speed (tick_sample g dt e) = speed e"
  by (simp_all add: tick_sample_def Let_def split_beta)

lemma tick_gather_frame:
  "midCounts (tick_gather now e) = midCounts e"
  "botCounts (tick_gather now e) = botCounts e"
  "sampleParticles (tick_gather now e) = sampleParticles e"
  "emissionPlan (tick_gather now e) = emissionPlan e"
  "gatherStart (tick_gather now e) = gatherStart e"
  "gatherDur (tick_gather now e) = gatherDur e"
  "speed (tick_gather now e) = speed e"
  by (simp_all add: tick_gather_def Let_def split: option.splits jsnum.splits)

lemma tick_stat_frame:
  "midCounts (tick_stat g dt e) = midCounts e"
  "sampleParticles (tick_stat g dt e) = sampleParticles e"
  "emissionPlan (tick_stat g dt e) = emissionPlan e"
  "gathering (tick_stat g dt e) = gathering e"
  "gatherTarget (tick_stat g dt e) = gatherTarget e"
  "gatherStart (tick_stat g dt e) = gatherStart e"
  "gatherDur (tick_stat g dt e) = gatherDur e"
  "gatherParticles (tick_stat g dt e) = gatherParticles e"
  "speed (tick_stat g dt e) = speed e"
  by (simp_all add: tick_stat_def Let_def split_beta)


lemma tick_gather_fields:
  "gathering (tick dt now e) = gathering (tick_gather now e)"
  "gatherTarget (tick dt now e) = gatherTarget (tick_gather now e)"
  "gatherStart (tick dt now e) = gatherStart e"
  "gatherDur (tick dt now e) = gatherDur e"
  by (simp_all add: tick_def Let_def tick_stat_frame tick_gather_frame tick_sample_frame
      tick_emission_frame tick_gather_def split: option.splits jsnum.splits)







section \<open>The gather\<close>

lemma length_snapshot_tray:
  assumes "length (midCounts e) = COLS"
  shows "length (snapshot_tray e) = sum_list (midCounts e)"
proof -
  have "length (snapshot_tray e)
          = (\<Sum>c\<leftarrow>[0..<COLS]. if c < COLS then midCounts e ! c else 0)"
    by (simp add: snapshot_tray_def Let_def length_concat comp_def ta_get_def assms)
  also have "\<dots> = (\<Sum>c\<leftarrow>[0..<COLS]. midCounts e ! c)"
    by (rule arg_cong [where f = sum_list], rule map_cong) simp_all
  also have "\<dots> = sum_list (midCounts e)"
    using assms by (metis map_nth)
  finally show ?thesis .
qed

lemma calculateWithGather_fields:
  assumes "length (lastSample e) \<noteq> 0 \<or> hasSampleInMid e"
  shows "midCounts (calculateWithGather now e) = replicate COLS 0"
    and "gathering (calculateWithGather now e)"
    and "gatherStart (calculateWithGather now e) = now"
    and "gatherParticles (calculateWithGather now e) = snapshot_tray e"
    and "lastSample (calculateWithGather now e) = []"
    and "statParticles (calculateWithGather now e) = statParticles e"
    and "botCounts (calculateWithGather now e) = botCounts e"
    and "emissionPlan (calculateWithGather now e) = emissionPlan e"
    and "sampleParticles (calculateWithGather now e) = sampleParticles e"
    and "gatherDur (calculateWithGather now e) = gatherDur e"
    and "gatherTarget (calculateWithGather now e) \<noteq> None"
  using assms
  by (auto simp add: calculateWithGather_def hasSampleInMid_def Let_def split_beta)

lemma tick_gather_running:
  assumes "gathering e" and "gatherTarget e = Some gt"
    and "clamp_div01 (now - gatherStart e) (gatherDur e) \<noteq> Num 1"
  shows "statParticles (tick_gather now e) = statParticles e"
    and "gathering (tick_gather now e)"
    and "gatherTarget (tick_gather now e) = Some gt"
    and "length (gatherParticles (tick_gather now e)) = length (gatherParticles e)"
  using assms
  by (auto simp add: tick_gather_def Let_def clamp_div01_def clamp_def split: jsnum.splits if_splits)

lemma tick_gather_spawn:
  assumes "gathering e" and "gatherTarget e = Some gt"
    and "clamp_div01 (now - gatherStart e) (gatherDur e) = Num 1"
  shows "statParticles (tick_gather now e) = statParticles e @
           [\<lparr>st_x = binCenterX e (gt_bin gt), st_y = gt_y gt, st_vy = 0,
             st_targetY = marginY e + H_TOP e + H_MID e + H_BOT e - 8
                - real (ta_get (botCounts e) (gt_bin gt)
                        + length (filter (\<lambda>q. same_bin (st_bin q) (gt_bin gt)) (statParticles e)))
                  * BOX_BOT_Y e
                - BOX_BOT_Y e / 2,
             st_bin = gt_bin gt\<rparr>]"
    and "\<not> gathering (tick_gather now e)"
    and "gatherTarget (tick_gather now e) = None"
    and "gatherParticles (tick_gather now e) = []"
  using assms by (cases "gt_bin gt"; simp add: tick_gather_def Let_def binCenterX_def)+

text \<open>The four states, evaluated.\<close>

lemma new_Engine_eq:
  "new_Engine = \<lparr>plotW = 960, gridW = 900, colW = 15, BOX = 15, gridX0 = 30,
        H_TOP = 300, H_MID = 240, H_BOT = 360, marginY = 8,
        BOX_TOP_Y = 8, BOX_MID_Y = 8, BOX_BOT_Y = 8,
        popCounts = replicate 60 0, midCounts = replicate 60 0,
        botCounts = replicate 60 0,
        sampleParticles = [], statParticles = [], popFlashes = [],
        gatherParticles = [], gatherTarget = None, gathering = False,
        gatherStart = 0, gatherDur = 260, emissionPlan = None,
        lastSample = [], statistic = ''mean'', threshold = 1/2, speed = ''normal'',
        rng = 1234, needsRedraw = True, lastGatheringSample = None\<rparr>"
  by (simp add: new_Engine_def resetGeometry_def Let_def COLS_def STAT_BINS_def createRNG_1234 PAD_def)

lemma hasSampleInMid_zero: "midCounts e = replicate COLS 0 \<Longrightarrow> \<not> hasSampleInMid e"
  by (simp add: hasSampleInMid_def list_ex_iff)

lemma drawn_pair_eq:
  "drawn_pair = new_Engine\<lparr>rng := 3663132860, lastSample := [3/40, 17/24],
       emissionPlan := Some \<lparr>ep_start = 0, ep_end = 1200, ep_total = 2, ep_emitted = 0,
                              ep_cols = [4, 42], ep_xs = [3/40, 17/24]\<rparr>\<rparr>"
  by (simp add: drawn_pair_def startSample_def scheduleEmission_def new_Engine_fields COLS_def
      sample_zero_pop)

lemma emit_pair:
  "emit_loop drawn_pair 1200
     \<lparr>ep_start = 0, ep_end = 1200, ep_total = 2, ep_emitted = 0,
       ep_cols = [4, 42], ep_xs = [3/40, 17/24]\<rparr> (Suc (Suc 0))
     (replicate 60 0, [], [], 0)
   = ((replicate 60 0)[4 := 1, 42 := 1],
      [\<lparr>fl_col = 4, fl_y = 16, fl_until = 1360\<rparr>, \<lparr>fl_col = 42, fl_y = 16, fl_until = 1360\<rparr>],
      [\<lparr>sp_col = 4, sp_x = 97.5, sp_y = 16, sp_vy = 0, sp_targetY = 536\<rparr>,
       \<lparr>sp_col = 42, sp_x = 667.5, sp_y = 16, sp_vy = 0, sp_targetY = 536\<rparr>], 2)"
  by (simp add: drawn_pair_eq new_Engine_eq Let_def ta_get_def ta_inc_def U16_def colCenter_def
      yStart_def emitted_particle_def)

lemma tick_emission_pair:
  "tick_emission 1200 drawn_pair
     = drawn_pair\<lparr>popFlashes := [\<lparr>fl_col = 4, fl_y = 16, fl_until = 1360\<rparr>,
                                 \<lparr>fl_col = 42, fl_y = 16, fl_until = 1360\<rparr>],
                  sampleParticles :=
                     [\<lparr>sp_col = 4, sp_x = 97.5, sp_y = 16, sp_vy = 0, sp_targetY = 536\<rparr>,
                      \<lparr>sp_col = 42, sp_x = 667.5, sp_y = 16, sp_vy = 0, sp_targetY = 536\<rparr>],
                  emissionPlan := None\<rparr>"
proof -
  have p: "emissionPlan drawn_pair = Some \<lparr>ep_start = 0, ep_end = 1200, ep_total = 2, ep_emitted = 0,
                              ep_cols = [4, 42], ep_xs = [3/40, 17/24]\<rparr>"
    "sampleParticles drawn_pair = []" "popFlashes drawn_pair = []"
    by (simp_all add: drawn_pair_eq new_Engine_eq)
  have e: "emit_loop drawn_pair 1200
     \<lparr>ep_start = 0, ep_end = 1200, ep_total = 2, ep_emitted = 0,
       ep_cols = [4, 42], ep_xs = [3/40, 17/24]\<rparr> 2
     (replicate 60 0, [], [], 0)
   = ((replicate 60 0)[4 := 1, 42 := 1],
      [\<lparr>fl_col = 4, fl_y = 16, fl_until = 1360\<rparr>, \<lparr>fl_col = 42, fl_y = 16, fl_until = 1360\<rparr>],
      [\<lparr>sp_col = 4, sp_x = 97.5, sp_y = 16, sp_vy = 0, sp_targetY = 536\<rparr>,
       \<lparr>sp_col = 42, sp_x = 667.5, sp_y = 16, sp_vy = 0, sp_targetY = 536\<rparr>], 2)"
    using emit_pair by (simp only: numeral_2_eq_2)
  show ?thesis
    by (simp add: tick_emission_def p clamp_div01_def clamp_def Let_def COLS_def e)
qed

lemma settled_pair_eq:
  "settled_pair = new_Engine\<lparr>rng := 3663132860, lastSample := [3/40, 17/24],
       midCounts := (replicate 60 0)[4 := 1, 42 := 1],
       popFlashes := [\<lparr>fl_col = 4, fl_y = 16, fl_until = 1360\<rparr>,
                      \<lparr>fl_col = 42, fl_y = 16, fl_until = 1360\<rparr>]\<rparr>"
proof -
  have f: "speed drawn_pair = ''normal''" "midCounts drawn_pair = replicate 60 0"
    "gatherTarget drawn_pair = None" "statParticles drawn_pair = []"
    "emissionPlan drawn_pair \<noteq> None"
    by (simp_all add: drawn_pair_eq new_Engine_eq)
  have "tick 1 1200 drawn_pair
     = drawn_pair\<lparr>emissionPlan := None, sampleParticles := [],
                  midCounts := (replicate 60 0)[4 := 1, 42 := 1],
                  popFlashes := [\<lparr>fl_col = 4, fl_y = 16, fl_until = 1360\<rparr>,
                                 \<lparr>fl_col = 42, fl_y = 16, fl_until = 1360\<rparr>],
                  needsRedraw := True\<rparr>"
    by (simp add: tick_def tick_emission_pair Let_def hasActiveAnimations_def tick_sample_def
      ta_inc_at_def ta_inc_def U16_def tick_gather_def tick_stat_def f gravity_def sp_move_def)
  then show ?thesis
    by (simp add: settled_pair_def drawn_pair_eq new_Engine_eq)
qed

lemma settled_pair_fields:
  "midCounts settled_pair = (replicate 60 0)[4 := 1, 42 := 1]"
  "lastSample settled_pair = [3/40, 17/24]"
  "statParticles settled_pair = []" "emissionPlan settled_pair = None"
  "sampleParticles settled_pair = []"
  "gatherDur settled_pair = 260" "\<not> gathering settled_pair"
  by (simp_all add: settled_pair_eq new_Engine_eq)

lemma settled_world_eq: "settled_world = \<lparr>w_engine = settled_pair, w_timers = []\<rparr>"
proof -
  have "\<not> hasSampleInMid new_Engine"
    by (rule hasSampleInMid_zero) (simp add: new_Engine_fields COLS_def)
  then have "drawSampleWithAutoCalculate 0 2 1200 new_world
               = \<lparr>w_engine = drawn_pair, w_timers = []\<rparr>"
    by (simp add: drawSampleWithAutoCalculate_def new_world_def new_Engine_fields drawn_pair_def)
  then show ?thesis
    by (simp add: settled_world_def run_def settled_pair_def)
qed

lemma pair_sum: "sum_list ((replicate 60 0)[4 := 1, 42 := 1]) = (2::nat)"
  by (simp add: sum_list_update)

lemma mean_pair: "computeStat ''mean'' (1/2) [3/40, 17/24] = Num (47/120)"
  by (simp add: computeStat_def mean_def)

lemma gather_settled_pair:
  "calculateWithGather 2000 settled_pair
     = settled_pair\<lparr>lastGatheringSample := Some [3/40, 17/24],
                gatherParticles := snapshot_tray settled_pair,
                midCounts := replicate 60 0,
                gatherTarget := Some \<lparr>gt_x = Num 382.5, gt_y = 428, gt_bin = Some 23\<rparr>,
                gathering := True, gatherStart := 2000, lastSample := []\<rparr>"
proof -
  have f: "lastSample settled_pair = [3/40, 17/24]" "statistic settled_pair = ''mean''"
    "threshold settled_pair = 1/2" "marginY settled_pair = 8" "H_TOP settled_pair = 300"
    "H_MID settled_pair = 240" "gridX0 settled_pair = 30" "BOX settled_pair = 15"
    by (simp_all add: settled_pair_eq new_Engine_eq)
  show ?thesis
    by (simp add: calculateWithGather_def f Let_def mean_pair statDomain_def bin_of_stat_eps_def
        clamp_def clampi_def STAT_BINS_def COLS_def binCenterX_def)
qed


text \<open>
  C2, as the code has it. A gather that goes ahead (the last sample or the tray is not
  empty) clears the tray histogram at once, at its start, when it turns the counts of
  the tray into as many gather particles. While the gather animates, a tick's gather step
  leaves the tray histogram alone; it spawns nothing before the interpolation reaches 1,
  and when it reaches 1 it spawns exactly one statistic particle, at rest at the
  convergence height and bound for the resolved bin, and ends the gather.
\<close>

theorem gather_clears_tray_at_start:
  "(length (midCounts e) = COLS \<and> (length (lastSample e) \<noteq> 0 \<or> hasSampleInMid e)
      \<longrightarrow> midCounts (calculateWithGather now e) = replicate COLS 0
        \<and> gathering (calculateWithGather now e)
        \<and> length (gatherParticles (calculateWithGather now e)) = sum_list (midCounts e)
        \<and> statParticles (calculateWithGather now e) = statParticles e)
   \<and> (gathering e' \<and> gatherTarget e' = Some gt
      \<longrightarrow> midCounts (tick_gather now' e') = midCounts e'
        \<and> (if clamp_div01 (now' - gatherStart e') (gatherDur e') = Num 1
            then (\<exists>p. statParticles (tick_gather now' e') = statParticles e' @ [p]
                      \<and> st_bin p = gt_bin gt \<and> st_y p = gt_y gt \<and> st_vy p = 0)
                 \<and> \<not> gathering (tick_gather now' e')
                 \<and> gatherParticles (tick_gather now' e') = []
            else statParticles (tick_gather now' e') = statParticles e'
                 \<and> gathering (tick_gather now' e')))"
  using calculateWithGather_fields [of e now] length_snapshot_tray [of e]
    tick_gather_running [of e' gt now'] tick_gather_spawn [of e' gt now']
  by (simp add: tick_gather_frame)

theorem gather_clears_tray_at_start_witness:
  "length (midCounts settled_pair) = COLS \<and> length (lastSample settled_pair) \<noteq> 0
   \<and> midCounts (calculateWithGather 2000 settled_pair) = replicate 60 0
   \<and> length (gatherParticles (calculateWithGather 2000 settled_pair)) = 2
   \<and> gathering (calculateWithGather 2000 settled_pair)
   \<and> gatherTarget (calculateWithGather 2000 settled_pair)
        = Some \<lparr>gt_x = Num 382.5, gt_y = 428, gt_bin = Some 23\<rparr>
   \<and> clamp_div01 (2260 - 2000) 260 = Num 1
   \<and> length (statParticles (tick_gather 2260 (calculateWithGather 2000 settled_pair))) = 1
   \<and> \<not> gathering (tick_gather 2260 (calculateWithGather 2000 settled_pair))"
proof -
  let ?g = "calculateWithGather 2000 settled_pair"
  note h1 = gather_clears_tray_at_start [of settled_pair 2000 ?g
      "\<lparr>gt_x = Num 382.5, gt_y = 428, gt_bin = Some 23\<rparr>" 2260]
  have g: "gathering ?g" "gatherTarget ?g = Some \<lparr>gt_x = Num 382.5, gt_y = 428, gt_bin = Some 23\<rparr>"
    "gatherStart ?g = 2000" "gatherDur ?g = 260" "statParticles ?g = []"
    unfolding gather_settled_pair by (simp_all add: settled_pair_eq new_Engine_eq)
  have c: "clamp_div01 (2260 - 2000) 260 = Num 1" by (simp add: clamp_div01_def clamp_def)
  from h1 g c show ?thesis
    using pair_sum by (auto simp add: settled_pair_fields COLS_def)
qed

text \<open>
  C2 as stated fails: with the two values of a settled draw in the tray, the tray
  histogram is all zero as soon as the gather has started, while the interpolation is
  still at 0.
\<close>

theorem gather_clears_tray_counterexample:
  "midCounts settled_pair = (replicate 60 0)[4 := 1, 42 := 1]
   \<and> midCounts (calculateWithGather 2000 settled_pair) = replicate 60 0
   \<and> gathering (calculateWithGather 2000 settled_pair)
   \<and> clamp_div01 (2000 - gatherStart (calculateWithGather 2000 settled_pair))
        (gatherDur (calculateWithGather 2000 settled_pair)) = Num 0"
  using calculateWithGather_fields [of settled_pair 2000]
  by (simp add: settled_pair_fields COLS_def clamp_div01_def clamp_def)

section \<open>A draw on a tray that is not empty\<close>

lemma startSample_fields:
  "emissionPlan (startSample now n dropMs e) \<noteq> None"
  "gathering (startSample now n dropMs e) = gathering e"
  "gatherStart (startSample now n dropMs e) = gatherStart e"
  "gatherDur (startSample now n dropMs e) = gatherDur e"
  "gatherTarget (startSample now n dropMs e) = gatherTarget e"
  "midCounts (startSample now n dropMs e) = midCounts e"
  "sampleParticles (startSample now n dropMs e) = sampleParticles e"
  "speed (startSample now n dropMs e) = speed e"
  by (simp_all add: startSample_def scheduleEmission_def split_beta)

lemma draw_nonempty:
  assumes "length (lastSample (w_engine w)) \<noteq> 0 \<or> hasSampleInMid (w_engine w)"
  shows "drawSampleWithAutoCalculate now n dropMs w
           = w\<lparr>w_engine := calculateWithGather now (w_engine w),
               w_timers := w_timers w @ [\<lparr>tm_due = now + 100, tm_n = n, tm_dropMs = dropMs\<rparr>]\<rparr>"
  using assms by (auto simp add: drawSampleWithAutoCalculate_def Let_def)

lemma gather_in_progress:
  assumes "gathering e" and "gatherTarget e \<noteq> None"
    and "clamp_div01 (now - gatherStart e) (gatherDur e) \<noteq> Num 1"
  shows "gathering (tick dt now e)"
  using assms tick_gather_running(2) [of e _ now] by (auto simp add: tick_gather_fields)

lemma run_append: "run (evs @ evs') w = run evs' (run evs w)"
  by (simp add: run_def)

text \<open>
  C3, as the code has it. A draw requested while the last sample or the tray is not
  empty starts the gather at once and leaves the emission plan as it is; the new plan is
  the work of a pending call that is due 100 ms after the request. Run at a time \<open>now'\<close>,
  that call does nothing before it is due, and from then on it starts the new sample,
  which installs the new emission plan and leaves the \<open>gathering\<close> flag as it finds it:
  it does not wait for the gather, which lasts \<open>gatherDur\<close> (260 ms).
\<close>

theorem redraw_after_fixed_delay:
  assumes "length (lastSample (w_engine w)) \<noteq> 0 \<or> hasSampleInMid (w_engine w)"
  shows "gathering (w_engine (drawSampleWithAutoCalculate now n dropMs w))
     \<and> gatherStart (w_engine (drawSampleWithAutoCalculate now n dropMs w)) = now
     \<and> emissionPlan (w_engine (drawSampleWithAutoCalculate now n dropMs w))
          = emissionPlan (w_engine w)
     \<and> w_timers (drawSampleWithAutoCalculate now n dropMs w)
          = w_timers w @ [\<lparr>tm_due = now + 100, tm_n = n, tm_dropMs = dropMs\<rparr>]
     \<and> fire_timer now' [\<lparr>tm_due = now + 100, tm_n = n, tm_dropMs = dropMs\<rparr>] e'
          = (if now + 100 \<le> now' then ([], startSample now' n dropMs e')
             else ([\<lparr>tm_due = now + 100, tm_n = n, tm_dropMs = dropMs\<rparr>], e'))
     \<and> emissionPlan (startSample now' n dropMs e') \<noteq> None
     \<and> gathering (startSample now' n dropMs e') = gathering e'"
  using calculateWithGather_fields [OF assms, of now]
  by (simp add: draw_nonempty [OF assms] startSample_fields)

theorem redraw_after_fixed_delay_witness:
  "length (lastSample (w_engine settled_world)) \<noteq> 0
   \<and> gathering (w_engine (drawSampleWithAutoCalculate 2000 2 1200 settled_world))
   \<and> emissionPlan (w_engine (drawSampleWithAutoCalculate 2000 2 1200 settled_world)) = None
   \<and> w_timers (drawSampleWithAutoCalculate 2000 2 1200 settled_world)
        = [\<lparr>tm_due = 2100, tm_n = 2, tm_dropMs = 1200\<rparr>]
   \<and> fst (fire_timer 2100 [\<lparr>tm_due = 2100, tm_n = 2, tm_dropMs = 1200\<rparr>] new_Engine) = []"
proof -
  have ne: "length (lastSample (w_engine settled_world)) \<noteq> 0
            \<or> hasSampleInMid (w_engine settled_world)"
    by (simp add: settled_world_eq settled_pair_fields)
  from redraw_after_fixed_delay [OF ne, of 2000 2 1200 2100 new_Engine] show ?thesis
    by (simp add: settled_world_eq settled_pair_fields)
qed

text \<open>
  C3 as stated fails. On a fresh engine a draw of two values settles; a second draw is
  requested at time 2000, with the tray not empty. The gather runs from 2000 to 2260;
  a frame passes at 2060, and at 2100 the pending call starts the new sample: the new
  emission plan is active while the engine is still gathering.
\<close>

theorem redraw_overlaps_gather_counterexample:
  "length (lastSample (w_engine (run [(0, Draw 2 1200), (1200, Frame 1)] new_world))) \<noteq> 0
   \<and> gathering (w_engine (run [(0, Draw 2 1200), (1200, Frame 1), (2000, Draw 2 1200),
                                 (2060, Frame 0.06), (2100, Timeout)] new_world))
   \<and> emissionPlan (w_engine (run [(0, Draw 2 1200), (1200, Frame 1), (2000, Draw 2 1200),
                                     (2060, Frame 0.06), (2100, Timeout)] new_world)) \<noteq> None
   \<and> gatherStart (w_engine (run [(0, Draw 2 1200), (1200, Frame 1), (2000, Draw 2 1200),
                                    (2060, Frame 0.06), (2100, Timeout)] new_world))
       + gatherDur (w_engine (run [(0, Draw 2 1200), (1200, Frame 1), (2000, Draw 2 1200),
                                    (2060, Frame 0.06), (2100, Timeout)] new_world)) = 2260"
proof -
  have ne: "length (lastSample (w_engine settled_world)) \<noteq> 0
            \<or> hasSampleInMid (w_engine settled_world)"
    by (simp add: settled_world_eq settled_pair_fields)
  let ?e1 = "calculateWithGather 2000 settled_pair"
  note f = calculateWithGather_fields [of settled_pair 2000]
  have g1: "gathering ?e1" "gatherTarget ?e1 \<noteq> None" "gatherStart ?e1 = 2000" "gatherDur ?e1 = 260"
    using f by (simp_all add: settled_pair_fields)
  have "clamp_div01 (2060 - gatherStart ?e1) (gatherDur ?e1) \<noteq> Num 1"
    by (simp add: g1 clamp_div01_def clamp_def)
  then have g2: "gathering (tick 0.06 2060 ?e1)"
    using g1 by (intro gather_in_progress) simp_all
  have d: "drawSampleWithAutoCalculate 2000 2 1200 settled_world
             = \<lparr>w_engine = ?e1, w_timers = [\<lparr>tm_due = 2100, tm_n = 2, tm_dropMs = 1200\<rparr>]\<rparr>"
    using draw_nonempty [OF ne, of 2000 2 1200] by (simp add: settled_world_eq)
  have "run [(2000, Draw 2 1200), (2060, Frame 0.06), (2100, Timeout)] settled_world
          = \<lparr>w_engine = startSample 2100 2 1200 (tick 0.06 2060 ?e1), w_timers = []\<rparr>"
    by (simp add: run_def d)
  then have r: "w_engine (run [(0, Draw 2 1200), (1200, Frame 1), (2000, Draw 2 1200),
                                 (2060, Frame 0.06), (2100, Timeout)] new_world)
          = startSample 2100 2 1200 (tick 0.06 2060 ?e1)"
    using run_append [of "[(0, Draw 2 1200), (1200, Frame 1)]"
        "[(2000, Draw 2 1200), (2060, Frame 0.06), (2100, Timeout)]" new_world]
    by (simp add: settled_world_def)
  have l: "length (lastSample (w_engine (run [(0, Draw 2 1200), (1200, Frame 1)] new_world))) \<noteq> 0"
    using settled_world_eq by (simp add: settled_world_def settled_pair_fields)
  show ?thesis
    unfolding r using g2 l
    by (simp add: startSample_fields tick_gather_fields g1)
qed

section \<open>Clearing the tray and resetting the experiment\<close>









section \<open>The particles of a draw\<close>

subsection \<open>The sample particles of a tick\<close>










subsection \<open>The emission of a tick\<close>









subsection \<open>Falling particles settle\<close>






subsection \<open>The end of the emission\<close>









subsection \<open>A tray of 16-bit counters\<close>









subsection \<open>Conservation\<close>




end
